theory Spec2Isabelle
  imports Main
begin

section \<open>Byte strings, errors and outcomes\<close>

text \<open>
  A Go \<^verbatim>\<open>string\<close> and a Go \<^verbatim>\<open>[]byte\<close> are both sequences of bytes; the
  conversion \<^verbatim>\<open>[]byte(s)\<close> copies the bytes of \<^verbatim>\<open>s\<close> unchanged. Both are modelled
  as lists of \<^typ>\<open>char\<close> (a \<^typ>\<open>char\<close> is one byte), so the conversion is the
  identity. The unsigned identifiers (\<^verbatim>\<open>uint\<close>) are only copied and compared with
  zero, never computed with; they are natural numbers.
\<close>

type_synonym bytes = "char list"

text \<open>
  The values of Go's \<^verbatim>\<open>error\<close> interface that reach the functions below:
  \<^verbatim>\<open>errors.New\<close>/\<^verbatim>\<open>fmt.Errorf\<close> with their message, the
  \<^verbatim>\<open>base64.CorruptInputError\<close> of the decoder (its byte offset is not modelled), and
  the errors of the collaborators that are passed in (repository, kubeconfig parser,
  \<^verbatim>\<open>url.Parse\<close>), which carry a description.
\<close>

datatype error =
    ErrorString string
  | CorruptInputError
  | ExternalError string

text \<open>
  A call either panics (a nil pointer is dereferenced), returns a non-nil error, or
  returns normally.
\<close>

datatype 'a outcome = Panic | Failed error | Ok 'a

section \<open>The standard library pieces the forms use\<close>

subsection \<open>\<^verbatim>\<open>base64.StdEncoding.DecodeString\<close>\<close>

text \<open>
  The standard alphabet; the decoder's table maps a byte to its position in it.
\<close>

definition encodeStd :: string where
  "encodeStd = ''ABCDEFGHIJKLMNOPQRSTUVWXYZabcdefghijklmnopqrstuvwxyz0123456789+/''"

fun index_of :: "'a list \<Rightarrow> 'a \<Rightarrow> nat option" where
  "index_of [] c = None"
| "index_of (x # xs) c = (if x = c then Some 0 else map_option Suc (index_of xs c))"

definition decodeMap :: "char \<Rightarrow> nat option" where
  "decodeMap c = index_of encodeStd c"

text \<open>
  Four 6-bit values are packed into 24 bits and cut into three bytes
  (\<^verbatim>\<open>val := d0<<18 | d1<<12 | d2<<6 | d3\<close>, then \<^verbatim>\<open>byte(val>>16)\<close>,
  \<^verbatim>\<open>byte(val>>8)\<close>, \<^verbatim>\<open>byte(val)\<close>).
\<close>

definition assemble :: "nat \<Rightarrow> nat \<Rightarrow> nat \<Rightarrow> nat \<Rightarrow> bytes" where
  "assemble d0 d1 d2 d3 =
     (let val = int d0 * 262144 + int d1 * 4096 + int d2 * 64 + int d3
      in [char_of (val div 65536), char_of (val div 256), char_of val])"

text \<open>
  The quanta of the input once line breaks are dropped. A quantum is four alphabet
  bytes, or, as the last one, two alphabet bytes and \<^verbatim>\<open>==\<close>, or three and
  \<^verbatim>\<open>=\<close>. Anything else (a byte outside the alphabet, misplaced or missing padding,
  bytes after the padding) is a \<^verbatim>\<open>CorruptInputError\<close>. The encoding is not strict:
  the unused low bits of a padded quantum are not checked.
\<close>

fun decodeQuanta :: "char list \<Rightarrow> error + bytes" where
  "decodeQuanta [] = Inr []"
| "decodeQuanta (a # b # c # d # rest) =
     (case decodeMap a of
        None \<Rightarrow> Inl CorruptInputError
      | Some d0 \<Rightarrow>
     (case decodeMap b of
        None \<Rightarrow> Inl CorruptInputError
      | Some d1 \<Rightarrow>
     (case decodeMap c of
        None \<Rightarrow>
          (if c = CHR ''='' \<and> d = CHR ''='' \<and> rest = []
           then Inr (take 1 (assemble d0 d1 0 0))
           else Inl CorruptInputError)
      | Some d2 \<Rightarrow>
     (case decodeMap d of
        None \<Rightarrow>
          (if d = CHR ''='' \<and> rest = []
           then Inr (take 2 (assemble d0 d1 d2 0))
           else Inl CorruptInputError)
      | Some d3 \<Rightarrow>
          (case decodeQuanta rest of
             Inl e \<Rightarrow> Inl e
           | Inr bs \<Rightarrow> Inr (assemble d0 d1 d2 d3 @ bs))))))"
| "decodeQuanta _ = Inl CorruptInputError"

text \<open>
  The decoder ignores carriage returns and line feeds wherever they stand. On an error
  Go also returns the bytes decoded so far; every caller below drops them.
\<close>

definition DecodeString :: "string \<Rightarrow> error + bytes" where
  "DecodeString s =
     decodeQuanta (filter (\<lambda>c. c \<noteq> CHR 0x0A \<and> c \<noteq> CHR 0x0D) s)"

subsection \<open>The regular expression of \<^verbatim>\<open>ToCluster\<close>\<close>

text \<open>
  \<^verbatim>\<open>^([A-Za-z0-9+/]{4})*([A-Za-z0-9+/]{3}=|[A-Za-z0-9+/]{2}==)?$\<close>, matched against
  the whole string (without the multi-line flag \<^verbatim>\<open>$\<close> is the end of the text).
  \<open>reClass\<close> is the character class \<^verbatim>\<open>[A-Za-z0-9+/]\<close>.
\<close>

definition reClass :: "char \<Rightarrow> bool" where
  "reClass c =
     (let n = (of_char c :: nat)
      in (65 \<le> n \<and> n \<le> 90) \<or> (97 \<le> n \<and> n \<le> 122) \<or> (48 \<le> n \<and> n \<le> 57)
         \<or> c = CHR ''+'' \<or> c = CHR ''/'')"

fun reMatchString :: "string \<Rightarrow> bool" where
  "reMatchString [] = True"
| "reMatchString (a # b # c # d # rest) =
     (reClass a \<and> reClass b \<and>
      ((reClass c \<and> reClass d \<and> reMatchString rest)
       \<or> (rest = [] \<and> ((reClass c \<and> d = CHR ''='') \<or> (c = CHR ''='' \<and> d = CHR ''='')))))"
| "reMatchString _ = False"

subsection \<open>\<^verbatim>\<open>strings.Join\<close>\<close>

fun Join :: "string list \<Rightarrow> string \<Rightarrow> string" where
  "Join [] sep = []"
| "Join [x] sep = x"
| "Join (x # y # ys) sep = x @ sep @ Join (y # ys) sep"

subsection \<open>\<^verbatim>\<open>net/url\<close>\<close>

text \<open>
  The fields of \<^verbatim>\<open>url.URL\<close>. The builder reads and writes \<^verbatim>\<open>Host\<close> only; the
  user information is kept as a name with an optional password.
\<close>

record URL =
  url_Scheme :: string
  url_Opaque :: string
  url_User :: "(string \<times> string option) option"
  url_Host :: string
  url_Path :: string
  url_RawPath :: string
  url_ForceQuery :: bool
  url_RawQuery :: string
  url_Fragment :: string
  url_RawFragment :: string

text \<open>
  \<^verbatim>\<open>(*URL).Port\<close>: the bytes of \<^verbatim>\<open>Host\<close> after its last colon when they are all
  decimal digits (none is allowed), and the empty string otherwise, also when
  \<^verbatim>\<open>Host\<close> has no colon.
\<close>

definition isDigit :: "char \<Rightarrow> bool" where
  "isDigit b = (48 \<le> (of_char b :: nat) \<and> (of_char b :: nat) \<le> 57)"

definition afterLastColon :: "string \<Rightarrow> string" where
  "afterLastColon host = rev (takeWhile (\<lambda>b. b \<noteq> CHR '':'') (rev host))"

definition Port :: "URL \<Rightarrow> string" where
  "Port u =
     (if CHR '':'' \<in> set (url_Host u) \<and> list_all isDigit (afterLastColon (url_Host u))
      then afterLastColon (url_Host u) else [])"

text \<open>
  The builder calls \<^verbatim>\<open>url.Parse\<close> and \<^verbatim>\<open>(*URL).String\<close>. It is given the two as
  functions, so that what it does with them reads apart from what they do; \<open>netURL\<close>
  below is the package itself.
\<close>

record urlPackage =
  url_Parse :: "string \<Rightarrow> error + URL"
  url_String :: "URL \<Rightarrow> string"

text \<open>
  \<^verbatim>\<open>url.Parse\<close> and \<^verbatim>\<open>(*URL).String\<close> after \<^verbatim>\<open>net/url/url.go\<close> of Go 1.15,
  the version that the \<^verbatim>\<open>Dockerfile\<close> of the repository builds with, function by
  function. A string is its bytes. An error is the \<^verbatim>\<open>ExternalError\<close> of
  the fixed words of its cause: the operand that the package quotes into some of the
  messages (\<^verbatim>\<open>EscapeError\<close>, \<^verbatim>\<open>InvalidHostError\<close>, the invalid port) and the
  \<^verbatim>\<open>*url.Error\<close> that \<^verbatim>\<open>Parse\<close> wraps around the cause, naming the operation and
  the URL, are left out. \<open>splitSep\<close> is the \<^verbatim>\<open>split\<close> of the package, \<open>URLString\<close>
  and \<open>userinfoString\<close> are the two \<^verbatim>\<open>String\<close> methods.
\<close>

text \<open>The byte classes, \<^verbatim>\<open>ishex\<close>, \<^verbatim>\<open>unhex\<close> and the byte \<^verbatim>\<open>unhex(a)<<4 | unhex(b)\<close>.\<close>

definition isLetter :: "char \<Rightarrow> bool" where
  "isLetter c =
     ((97 \<le> (of_char c :: nat) \<and> (of_char c :: nat) \<le> 122)
      \<or> (65 \<le> (of_char c :: nat) \<and> (of_char c :: nat) \<le> 90))"

definition toLowerByte :: "char \<Rightarrow> char" where
  "toLowerByte c =
     (if 65 \<le> (of_char c :: nat) \<and> (of_char c :: nat) \<le> 90
      then char_of ((of_char c :: nat) + 32) else c)"

definition ishex :: "char \<Rightarrow> bool" where
  "ishex c =
     ((48 \<le> (of_char c :: nat) \<and> (of_char c :: nat) \<le> 57)
      \<or> (97 \<le> (of_char c :: nat) \<and> (of_char c :: nat) \<le> 102)
      \<or> (65 \<le> (of_char c :: nat) \<and> (of_char c :: nat) \<le> 70))"

definition unhex :: "char \<Rightarrow> nat" where
  "unhex c =
     (if 48 \<le> (of_char c :: nat) \<and> (of_char c :: nat) \<le> 57 then of_char c - 48
      else if 97 \<le> (of_char c :: nat) \<and> (of_char c :: nat) \<le> 102 then of_char c - 97 + 10
      else if 65 \<le> (of_char c :: nat) \<and> (of_char c :: nat) \<le> 70 then of_char c - 65 + 10
      else 0)"

definition hexByte :: "char \<Rightarrow> char \<Rightarrow> char" where
  "hexByte a b = char_of (int (unhex a) * 16 + int (unhex b))"

text \<open>
  \<^verbatim>\<open>shouldEscape\<close>: letters and digits never; in a host or a zone the sub-delimiters,
  the colon, the brackets, the angle brackets and the double quote neither; then the
  marks, the reserved bytes by mode (a host has no case there and falls through to
  the final \<^verbatim>\<open>return true\<close>), and the four bytes a fragment keeps.
\<close>

datatype encoding =
    encodePath | encodePathSegment | encodeHost | encodeZone
  | encodeUserPassword | encodeQueryComponent | encodeFragment

definition hostSubDelims :: string where
  "hostSubDelims = ''!$&()*+,;=:[]<>'' @ [CHR 0x27, CHR 0x22]"

definition shouldEscape :: "char \<Rightarrow> encoding \<Rightarrow> bool" where
  "shouldEscape c mode =
     (if isLetter c \<or> isDigit c then False
      else if (mode = encodeHost \<or> mode = encodeZone) \<and> c \<in> set hostSubDelims then False
      else if c \<in> set ''-_.~'' then False
      else if c \<in> set ''$&+,/:;=?@''
      then (case mode of
              encodePath \<Rightarrow> c = CHR ''?''
            | encodePathSegment \<Rightarrow> c \<in> set ''/;,?''
            | encodeUserPassword \<Rightarrow> c \<in> set ''@/?:''
            | encodeQueryComponent \<Rightarrow> True
            | encodeFragment \<Rightarrow> False
            | encodeHost \<Rightarrow> True
            | encodeZone \<Rightarrow> True)
      else if mode = encodeFragment \<and> c \<in> set ''!()*'' then False
      else True)"

text \<open>
  \<^verbatim>\<open>unescape\<close>. Its first loop checks the string: a percent sign needs two
  hexadecimal digits after it, in a host it may only stand for a byte from 0x80 on or
  for the percent sign itself, in a zone for a byte that a host may hold, a space or
  the percent sign; every other byte of a host or zone below 0x80 must be one that
  \<^verbatim>\<open>shouldEscape\<close> lets through (a plus sign always is). Its second loop builds the
  result.
\<close>

definition plainByteError :: "char \<Rightarrow> encoding \<Rightarrow> error option" where
  "plainByteError c mode =
     (if (mode = encodeHost \<or> mode = encodeZone) \<and> (of_char c :: nat) < 128
         \<and> shouldEscape c encodeHost
      then Some (ExternalError ''invalid character in host name'') else None)"

definition escapeTripleError :: "char \<Rightarrow> char \<Rightarrow> encoding \<Rightarrow> error option" where
  "escapeTripleError a b mode =
     (if ishex a \<and> ishex b
      then (if mode = encodeHost \<and> unhex a < 8 \<and> [a, b] \<noteq> ''25''
            then Some (ExternalError ''invalid URL escape'')
            else if mode = encodeZone \<and> [a, b] \<noteq> ''25'' \<and> hexByte a b \<noteq> CHR '' ''
                    \<and> shouldEscape (hexByte a b) encodeHost
            then Some (ExternalError ''invalid URL escape'')
            else None)
      else Some (ExternalError ''invalid URL escape''))"

fun unescapeError :: "string \<Rightarrow> encoding \<Rightarrow> error option" where
  "unescapeError [] mode = None"
| "unescapeError [c] mode =
     (if c = CHR ''%'' then Some (ExternalError ''invalid URL escape'')
      else plainByteError c mode)"
| "unescapeError [c, a] mode =
     (if c = CHR ''%'' then Some (ExternalError ''invalid URL escape'')
      else (case plainByteError c mode of
              Some err \<Rightarrow> Some err
            | None \<Rightarrow> unescapeError [a] mode))"
| "unescapeError (c # a # b # s) mode =
     (if c = CHR ''%''
      then (case escapeTripleError a b mode of
              Some err \<Rightarrow> Some err
            | None \<Rightarrow> unescapeError s mode)
      else (case plainByteError c mode of
              Some err \<Rightarrow> Some err
            | None \<Rightarrow> unescapeError (a # b # s) mode))"

fun unescapeBytes :: "string \<Rightarrow> encoding \<Rightarrow> string" where
  "unescapeBytes (c # a # b # s) mode =
     (if c = CHR ''%'' then hexByte a b # unescapeBytes s mode
      else (if c = CHR ''+'' \<and> mode = encodeQueryComponent then CHR '' '' else c)
             # unescapeBytes (a # b # s) mode)"
| "unescapeBytes (c # s) mode =
     (if c = CHR ''+'' \<and> mode = encodeQueryComponent then CHR '' '' else c)
       # unescapeBytes s mode"
| "unescapeBytes [] mode = []"

definition unescape :: "string \<Rightarrow> encoding \<Rightarrow> error + string" where
  "unescape s mode =
     (case unescapeError s mode of
        Some err \<Rightarrow> Inl err
      | None \<Rightarrow> Inr (unescapeBytes s mode))"

text \<open>\<^verbatim>\<open>escape\<close> and \<^verbatim>\<open>validEncoded\<close>.\<close>

definition upperhex :: string where
  "upperhex = ''0123456789ABCDEF''"

definition escapeByte :: "encoding \<Rightarrow> char \<Rightarrow> string" where
  "escapeByte mode c =
     (if c = CHR '' '' \<and> mode = encodeQueryComponent then ''+''
      else if shouldEscape c mode
      then [CHR ''%'', upperhex ! ((of_char c :: nat) div 16),
            upperhex ! ((of_char c :: nat) mod 16)]
      else [c])"

definition escape :: "string \<Rightarrow> encoding \<Rightarrow> string" where
  "escape s mode = concat (map (escapeByte mode) s)"

definition validEncoded :: "string \<Rightarrow> encoding \<Rightarrow> bool" where
  "validEncoded s mode =
     list_all (\<lambda>c. if c \<in> set (''!$&()*+,;=:@[]%'' @ [CHR 0x27]) then True
                    else \<not> shouldEscape c mode) s"

text \<open>
  Cutting strings: \<^verbatim>\<open>split\<close> at the first separator (which \<open>cutc\<close> drops), the parts
  after and before the last occurrence of a byte (\<^verbatim>\<open>strings.LastIndex\<close>; they are
  used where the byte occurs), and the parts before and from the first occurrence of
  a string (\<^verbatim>\<open>strings.Index\<close>).
\<close>

definition splitSep :: "string \<Rightarrow> char \<Rightarrow> bool \<Rightarrow> string \<times> string" where
  "splitSep s sep cutc =
     (if sep \<in> set s
      then (takeWhile (\<lambda>b. b \<noteq> sep) s,
            if cutc then tl (dropWhile (\<lambda>b. b \<noteq> sep) s) else dropWhile (\<lambda>b. b \<noteq> sep) s)
      else (s, []))"

definition afterLast :: "char \<Rightarrow> string \<Rightarrow> string" where
  "afterLast sep s = rev (takeWhile (\<lambda>b. b \<noteq> sep) (rev s))"

definition beforeLast :: "char \<Rightarrow> string \<Rightarrow> string" where
  "beforeLast sep s = rev (tl (dropWhile (\<lambda>b. b \<noteq> sep) (rev s)))"

fun breakAt :: "string \<Rightarrow> string \<Rightarrow> (string \<times> string) option" where
  "breakAt sep [] = (if sep = [] then Some ([], []) else None)"
| "breakAt sep (c # s) =
     (if take (length sep) (c # s) = sep then Some ([], c # s)
      else map_option (\<lambda>(before, rest). (c # before, rest)) (breakAt sep s))"

text \<open>
  \<^verbatim>\<open>getscheme\<close>: the loop over the bytes of the raw URL, \<open>seen\<close> being the bytes
  before the index.
\<close>

fun getschemeFrom :: "string \<Rightarrow> string \<Rightarrow> string \<Rightarrow> error + (string \<times> string)" where
  "getschemeFrom rawURL seen [] = Inr ([], rawURL)"
| "getschemeFrom rawURL seen (c # rest) =
     (if isLetter c then getschemeFrom rawURL (seen @ [c]) rest
      else if isDigit c \<or> c \<in> set ''+-.''
      then (if seen = [] then Inr ([], rawURL) else getschemeFrom rawURL (seen @ [c]) rest)
      else if c = CHR '':''
      then (if seen = [] then Inl (ExternalError ''missing protocol scheme'')
            else Inr (seen, rest))
      else Inr ([], rawURL))"

definition getscheme :: "string \<Rightarrow> error + (string \<times> string)" where
  "getscheme rawURL = getschemeFrom rawURL [] rawURL"

text \<open>\<^verbatim>\<open>validOptionalPort\<close>, \<^verbatim>\<open>validUserinfo\<close>, \<^verbatim>\<open>parseHost\<close> and \<^verbatim>\<open>parseAuthority\<close>.\<close>

definition validOptionalPort :: "string \<Rightarrow> bool" where
  "validOptionalPort port =
     (case port of [] \<Rightarrow> True | c # digits \<Rightarrow> c = CHR '':'' \<and> list_all isDigit digits)"

definition validUserinfo :: "string \<Rightarrow> bool" where
  "validUserinfo s =
     list_all (\<lambda>r. isLetter r \<or> isDigit r
                    \<or> r \<in> set (''-._:~!$&()*+,;=%@'' @ [CHR 0x27])) s"

definition parseHost :: "string \<Rightarrow> error + string" where
  "parseHost host =
     (if take 1 host = ''[''
      then (if CHR '']'' \<in> set host
            then (if validOptionalPort (afterLast CHR '']'' host)
                  then (case breakAt ''%25'' (beforeLast CHR '']'' host) of
                          Some (beforeZone, zone) \<Rightarrow>
                            (case unescape beforeZone encodeHost of
                               Inl err \<Rightarrow> Inl err
                             | Inr host1 \<Rightarrow>
                            (case unescape zone encodeZone of
                               Inl err \<Rightarrow> Inl err
                             | Inr host2 \<Rightarrow>
                            (case unescape (CHR '']'' # afterLast CHR '']'' host) encodeHost of
                               Inl err \<Rightarrow> Inl err
                             | Inr host3 \<Rightarrow> Inr (host1 @ host2 @ host3))))
                        | None \<Rightarrow> unescape host encodeHost)
                  else Inl (ExternalError ''invalid port after host''))
            else Inl (ExternalError (''missing '' @ [CHR 0x27] @ '']'' @ [CHR 0x27] @ '' in host'')))
      else if CHR '':'' \<in> set host
      then (if validOptionalPort (CHR '':'' # afterLast CHR '':'' host)
            then unescape host encodeHost
            else Inl (ExternalError ''invalid port after host''))
      else unescape host encodeHost)"

definition parseAuthority ::
  "string \<Rightarrow> error + ((string \<times> string option) option \<times> string)" where
  "parseAuthority authority =
     (if CHR ''@'' \<in> set authority
      then (case parseHost (afterLast CHR ''@'' authority) of
              Inl err \<Rightarrow> Inl err
            | Inr host \<Rightarrow>
                (if validUserinfo (beforeLast CHR ''@'' authority)
                 then (if CHR '':'' \<in> set (beforeLast CHR ''@'' authority)
                       then (case unescape (fst (splitSep (beforeLast CHR ''@'' authority)
                                                   CHR '':'' True)) encodeUserPassword of
                               Inl err \<Rightarrow> Inl err
                             | Inr username \<Rightarrow>
                            (case unescape (snd (splitSep (beforeLast CHR ''@'' authority)
                                                   CHR '':'' True)) encodeUserPassword of
                               Inl err \<Rightarrow> Inl err
                             | Inr password \<Rightarrow> Inr (Some (username, Some password), host)))
                       else (case unescape (beforeLast CHR ''@'' authority)
                                    encodeUserPassword of
                               Inl err \<Rightarrow> Inl err
                             | Inr username \<Rightarrow> Inr (Some (username, None), host)))
                 else Inl (ExternalError ''net/url: invalid userinfo'')))
      else (case parseHost authority of
              Inl err \<Rightarrow> Inl err
            | Inr host \<Rightarrow> Inr (None, host)))"

text \<open>
  \<^verbatim>\<open>setPath\<close> and \<^verbatim>\<open>setFragment\<close> keep the raw form only when it is not the default
  encoding of the decoded one. \<^verbatim>\<open>parse\<close> is given \<open>viaRequest\<close>, which \<^verbatim>\<open>Parse\<close>
  sets to false; \<^verbatim>\<open>Parse\<close> cuts the fragment off first.
\<close>

definition emptyURL :: URL where
  "emptyURL =
     \<lparr>url_Scheme = [], url_Opaque = [], url_User = None, url_Host = [], url_Path = [],
      url_RawPath = [], url_ForceQuery = False, url_RawQuery = [], url_Fragment = [],
      url_RawFragment = []\<rparr>"

definition setPath :: "URL \<Rightarrow> string \<Rightarrow> error + URL" where
  "setPath u p =
     (case unescape p encodePath of
        Inl err \<Rightarrow> Inl err
      | Inr path \<Rightarrow>
          Inr (u\<lparr>url_Path := path,
                 url_RawPath := (if p = escape path encodePath then [] else p)\<rparr>))"

definition setFragment :: "URL \<Rightarrow> string \<Rightarrow> error + URL" where
  "setFragment u f =
     (case unescape f encodeFragment of
        Inl err \<Rightarrow> Inl err
      | Inr frag \<Rightarrow>
          Inr (u\<lparr>url_Fragment := frag,
                 url_RawFragment := (if f = escape frag encodeFragment then [] else f)\<rparr>))"

definition stringContainsCTLByte :: "string \<Rightarrow> bool" where
  "stringContainsCTLByte s = list_ex (\<lambda>b. (of_char b :: nat) < 32 \<or> (of_char b :: nat) = 127) s"

definition parse :: "string \<Rightarrow> bool \<Rightarrow> error + URL" where
  "parse rawURL viaRequest =
     (if stringContainsCTLByte rawURL
      then Inl (ExternalError ''net/url: invalid control character in URL'')
      else if rawURL = [] \<and> viaRequest then Inl (ExternalError ''empty url'')
      else if rawURL = ''*'' then Inr (emptyURL\<lparr>url_Path := ''*''\<rparr>)
      else
     (case getscheme rawURL of
        Inl err \<Rightarrow> Inl err
      | Inr (scheme, afterScheme) \<Rightarrow>
     (let u = emptyURL\<lparr>url_Scheme := map toLowerByte scheme\<rparr>;
          forceQuery = (afterScheme \<noteq> [] \<and> last afterScheme = CHR ''?''
                        \<and> count_list afterScheme CHR ''?'' = 1);
          u = (if forceQuery then u\<lparr>url_ForceQuery := True\<rparr>
               else u\<lparr>url_RawQuery := snd (splitSep afterScheme CHR ''?'' True)\<rparr>);
          rest = (if forceQuery then butlast afterScheme
                  else fst (splitSep afterScheme CHR ''?'' True))
      in
     (if take 1 rest \<noteq> ''/'' \<and> url_Scheme u \<noteq> [] then Inr (u\<lparr>url_Opaque := rest\<rparr>)
      else if take 1 rest \<noteq> ''/'' \<and> viaRequest
      then Inl (ExternalError ''invalid URI for request'')
      else if take 1 rest \<noteq> ''/'' \<and> CHR '':'' \<in> set (takeWhile (\<lambda>b. b \<noteq> CHR ''/'') rest)
      then Inl (ExternalError ''first path segment in URL cannot contain colon'')
      else if (url_Scheme u \<noteq> [] \<or> (\<not> viaRequest \<and> take 3 rest \<noteq> ''///''))
              \<and> take 2 rest = ''//''
      then (case parseAuthority (fst (splitSep (drop 2 rest) CHR ''/'' False)) of
              Inl err \<Rightarrow> Inl err
            | Inr (user, host) \<Rightarrow>
                setPath (u\<lparr>url_User := user, url_Host := host\<rparr>)
                  (snd (splitSep (drop 2 rest) CHR ''/'' False)))
      else setPath u rest))))"

definition Parse :: "string \<Rightarrow> error + URL" where
  "Parse rawURL =
     (case parse (fst (splitSep rawURL CHR ''#'' True)) False of
        Inl err \<Rightarrow> Inl err
      | Inr u \<Rightarrow>
          (if snd (splitSep rawURL CHR ''#'' True) = [] then Inr u
           else setFragment u (snd (splitSep rawURL CHR ''#'' True))))"

text \<open>
  \<^verbatim>\<open>(*URL).String\<close> with \<^verbatim>\<open>(*Userinfo).String\<close>, \<^verbatim>\<open>EscapedPath\<close> and
  \<^verbatim>\<open>EscapedFragment\<close>. An opaque URL is printed as scheme, colon and opaque part:
  its \<^verbatim>\<open>Host\<close> is not looked at.
\<close>

definition userinfoString :: "string \<times> string option \<Rightarrow> string" where
  "userinfoString ui =
     escape (fst ui) encodeUserPassword
       @ (case snd ui of None \<Rightarrow> [] | Some password \<Rightarrow> '':'' @ escape password encodeUserPassword)"

definition EscapedPath :: "URL \<Rightarrow> string" where
  "EscapedPath u =
     (if url_RawPath u \<noteq> [] \<and> validEncoded (url_RawPath u) encodePath
         \<and> unescape (url_RawPath u) encodePath = Inr (url_Path u)
      then url_RawPath u
      else if url_Path u = ''*'' then ''*''
      else escape (url_Path u) encodePath)"

definition EscapedFragment :: "URL \<Rightarrow> string" where
  "EscapedFragment u =
     (if url_RawFragment u \<noteq> [] \<and> validEncoded (url_RawFragment u) encodeFragment
         \<and> unescape (url_RawFragment u) encodeFragment = Inr (url_Fragment u)
      then url_RawFragment u
      else escape (url_Fragment u) encodeFragment)"

definition URLString :: "URL \<Rightarrow> string" where
  "URLString u =
     (let buf = (if url_Scheme u \<noteq> [] then url_Scheme u @ '':'' else []);
          buf =
            (if url_Opaque u \<noteq> [] then buf @ url_Opaque u
             else
               (let buf =
                      (if url_Scheme u \<noteq> [] \<or> url_Host u \<noteq> [] \<or> url_User u \<noteq> None
                       then buf
                            @ (if url_Host u \<noteq> [] \<or> url_Path u \<noteq> [] \<or> url_User u \<noteq> None
                               then ''//'' else [])
                            @ (case url_User u of
                                 None \<Rightarrow> [] | Some ui \<Rightarrow> userinfoString ui @ ''@'')
                            @ (if url_Host u \<noteq> [] then escape (url_Host u) encodeHost else [])
                       else buf);
                    path = EscapedPath u;
                    buf = (if path \<noteq> [] \<and> take 1 path \<noteq> ''/'' \<and> url_Host u \<noteq> []
                           then buf @ ''/'' else buf);
                    buf = (if buf = [] \<and> CHR '':'' \<in> set (takeWhile (\<lambda>b. b \<noteq> CHR ''/'') path)
                           then buf @ ''./'' else buf)
                in buf @ path));
          buf = (if url_ForceQuery u \<or> url_RawQuery u \<noteq> []
                 then buf @ ''?'' @ url_RawQuery u else buf);
          buf = (if url_Fragment u \<noteq> [] then buf @ ''#'' @ EscapedFragment u else buf)
      in buf)"

definition netURL :: urlPackage where
  "netURL = \<lparr>url_Parse = Parse, url_String = URLString\<rparr>"

section \<open>The data of the forms\<close>

text \<open>
  \<^verbatim>\<open>models.ClusterAuth\<close> is a string type with seven declared values. Its
  declaration is not among the source files, so the seven values are constructors,
  and \<open>OtherAuth s\<close> stands for every other string a candidate may carry
  (the zero value included).
\<close>

datatype ClusterAuth = X509 | Bearer | Basic | Local | OIDC | GCP | AWS | OtherAuth string

datatype KubeIntegrationAuth = KubeX509 | KubeBearer | KubeBasic | KubeLocal

datatype OIDCIntegrationClient = OIDCKube

text \<open>
  The integrations (package \<^verbatim>\<open>ints\<close>), with the fields the resolvers set;
  \<open>_ID\<close> is \<^verbatim>\<open>Model.ID\<close>. A nil and an empty byte slice are not told apart:
  the code only asks for their length.
\<close>

record KubeIntegration =
  ki_ID :: nat
  ki_Mechanism :: KubeIntegrationAuth
  ki_UserID :: nat
  ki_ProjectID :: nat
  ki_ClientCertificateData :: bytes
  ki_ClientKeyData :: bytes
  ki_Token :: bytes
  ki_Username :: bytes
  ki_Password :: bytes
  ki_Kubeconfig :: bytes

record OIDCIntegration =
  oidc_ID :: nat
  oidc_Client :: OIDCIntegrationClient
  oidc_UserID :: nat
  oidc_ProjectID :: nat
  oidc_IssuerURL :: bytes
  oidc_ClientID :: bytes
  oidc_ClientSecret :: bytes
  oidc_CertificateAuthorityData :: bytes
  oidc_IDToken :: bytes
  oidc_RefreshToken :: bytes

record GCPIntegration =
  gcp_ID :: nat
  gcp_UserID :: nat
  gcp_ProjectID :: nat
  gcp_GCPKeyData :: bytes

record AWSIntegration =
  aws_ID :: nat
  aws_UserID :: nat
  aws_ProjectID :: nat
  aws_AWSClusterID :: bytes
  aws_AWSAccessKeyID :: bytes
  aws_AWSSecretAccessKey :: bytes

text \<open>
  The parsed kubeconfig (\<^verbatim>\<open>api.Config\<close> of client-go), with the fields the forms
  read. Its three maps hold pointers: looking up a missing name yields nil, here
  \<open>None\<close>. The provider configuration is a pointer too; reading a missing key of
  its \<^verbatim>\<open>Config\<close> map is harmless in Go, also when the map is nil.
\<close>

record AuthProviderConfig =
  apc_Name :: string
  apc_Config :: "string \<rightharpoonup> string"

record AuthInfo =
  ai_LocationOfOrigin :: string
  ai_ClientCertificateData :: bytes
  ai_ClientKeyData :: bytes
  ai_Token :: string
  ai_Impersonate :: string
  ai_ImpersonateGroups :: "string list"
  ai_Username :: string
  ai_Password :: string
  ai_AuthProvider :: "AuthProviderConfig option"

record Context =
  ctx_Cluster :: string
  ctx_AuthInfo :: string

record KubeCluster =
  kc_LocationOfOrigin :: string
  kc_TLSServerName :: string
  kc_InsecureSkipTLSVerify :: bool
  kc_CertificateAuthorityData :: bytes

record Config =
  cfg_Clusters :: "string \<rightharpoonup> KubeCluster"
  cfg_AuthInfos :: "string \<rightharpoonup> AuthInfo"
  cfg_Contexts :: "string \<rightharpoonup> Context"
  cfg_CurrentContext :: string

text \<open>The models: candidate, overrides (\<^verbatim>\<open>ClusterResolverAll\<close>) and cluster.\<close>

record ClusterCandidate =
  cc_AuthMechanism :: ClusterAuth
  cc_ProjectID :: nat
  cc_Name :: string
  cc_Server :: string
  cc_Kubeconfig :: bytes

record ClusterResolverAll =
  cra_ClusterCAData :: string
  cra_ClusterHostname :: string
  cra_ClientCertData :: string
  cra_ClientKeyData :: string
  cra_OIDCIssuerCAData :: string
  cra_TokenData :: string
  cra_GCPKeyData :: string
  cra_AWSAccessKeyID :: string
  cra_AWSSecretAccessKey :: string
  cra_AWSClusterID :: string

record Cluster =
  cl_AuthMechanism :: ClusterAuth
  cl_ProjectID :: nat
  cl_Name :: string
  cl_Server :: string
  cl_ClusterLocationOfOrigin :: string
  cl_TLSServerName :: string
  cl_InsecureSkipTLSVerify :: bool
  cl_UserLocationOfOrigin :: string
  cl_UserImpersonate :: string
  cl_UserImpersonateGroups :: string
  cl_CertificateAuthorityData :: bytes
  cl_KubeIntegrationID :: nat
  cl_OIDCIntegrationID :: nat
  cl_GCPIntegrationID :: nat
  cl_AWSIntegrationID :: nat

text \<open>The zero values of the structs that the code fills in field by field.\<close>

definition zeroCluster :: Cluster where
  "zeroCluster =
     \<lparr>cl_AuthMechanism = OtherAuth [], cl_ProjectID = 0, cl_Name = [], cl_Server = [],
      cl_ClusterLocationOfOrigin = [], cl_TLSServerName = [],
      cl_InsecureSkipTLSVerify = False, cl_UserLocationOfOrigin = [],
      cl_UserImpersonate = [], cl_UserImpersonateGroups = [],
      cl_CertificateAuthorityData = [], cl_KubeIntegrationID = 0,
      cl_OIDCIntegrationID = 0, cl_GCPIntegrationID = 0, cl_AWSIntegrationID = 0\<rparr>"

definition newKubeIntegration :: "KubeIntegrationAuth \<Rightarrow> nat \<Rightarrow> nat \<Rightarrow> KubeIntegration" where
  "newKubeIntegration mechanism userID projectID =
     \<lparr>ki_ID = 0, ki_Mechanism = mechanism, ki_UserID = userID, ki_ProjectID = projectID,
      ki_ClientCertificateData = [], ki_ClientKeyData = [], ki_Token = [],
      ki_Username = [], ki_Password = [], ki_Kubeconfig = []\<rparr>"

definition newOIDCIntegration :: "nat \<Rightarrow> nat \<Rightarrow> OIDCIntegration" where
  "newOIDCIntegration userID projectID =
     \<lparr>oidc_ID = 0, oidc_Client = OIDCKube, oidc_UserID = userID,
      oidc_ProjectID = projectID, oidc_IssuerURL = [], oidc_ClientID = [],
      oidc_ClientSecret = [], oidc_CertificateAuthorityData = [], oidc_IDToken = [],
      oidc_RefreshToken = []\<rparr>"

definition newGCPIntegration :: "nat \<Rightarrow> nat \<Rightarrow> GCPIntegration" where
  "newGCPIntegration userID projectID =
     \<lparr>gcp_ID = 0, gcp_UserID = userID, gcp_ProjectID = projectID, gcp_GCPKeyData = []\<rparr>"

definition newAWSIntegration :: "nat \<Rightarrow> nat \<Rightarrow> AWSIntegration" where
  "newAWSIntegration userID projectID =
     \<lparr>aws_ID = 0, aws_UserID = userID, aws_ProjectID = projectID, aws_AWSClusterID = [],
      aws_AWSAccessKeyID = [], aws_AWSSecretAccessKey = []\<rparr>"

text \<open>The two forms.\<close>

record CreateClusterForm =
  ccf_Name :: string
  ccf_ProjectID :: nat
  ccf_Server :: string
  ccf_GCPIntegrationID :: nat
  ccf_AWSIntegrationID :: nat
  ccf_CertificateAuthorityData :: string

record ResolveClusterForm =
  rcf_Resolver :: "ClusterResolverAll option"
  rcf_ClusterCandidateID :: nat
  rcf_ProjectID :: nat
  rcf_UserID :: nat
  rcf_IntegrationID :: nat
  rcf_ClusterCandidate :: "ClusterCandidate option"
  rcf_RawConf :: "Config option"

text \<open>
  \<^verbatim>\<open>repository.Repository\<close> is a struct of interfaces: a record of the operations
  the form calls, over a store \<open>'s\<close> that a create may change. A create returns the
  stored record, which carries its identifier, or an error.
\<close>

record 's Repository =
  ReadClusterCandidate :: "nat \<Rightarrow> 's \<Rightarrow> error + ClusterCandidate"
  CreateKubeIntegration :: "KubeIntegration \<Rightarrow> 's \<Rightarrow> (error + KubeIntegration) \<times> 's"
  CreateOIDCIntegration :: "OIDCIntegration \<Rightarrow> 's \<Rightarrow> (error + OIDCIntegration) \<times> 's"
  CreateGCPIntegration :: "GCPIntegration \<Rightarrow> 's \<Rightarrow> (error + GCPIntegration) \<times> 's"
  CreateAWSIntegration :: "AWSIntegration \<Rightarrow> 's \<Rightarrow> (error + AWSIntegration) \<times> 's"

section \<open>\<^verbatim>\<open>CreateClusterForm.ToCluster\<close>\<close>

definition ToCluster :: "CreateClusterForm \<Rightarrow> error + Cluster" where
  "ToCluster ccf =
     (case (if ccf_GCPIntegrationID ccf \<noteq> 0 then Inr GCP
            else if ccf_AWSIntegrationID ccf \<noteq> 0 then Inr AWS
            else Inl (ErrorString ''must include aws or gcp integration id'')) of
        Inl err \<Rightarrow> Inl err
      | Inr authMechanism \<Rightarrow>
          (case (if ccf_CertificateAuthorityData ccf \<noteq> []
                 then (if reMatchString (ccf_CertificateAuthorityData ccf)
                       then DecodeString (ccf_CertificateAuthorityData ccf)
                       else Inr [])
                 else Inr []) of
             Inl err \<Rightarrow> Inl err
           | Inr cert \<Rightarrow>
               Inr (zeroCluster
                     \<lparr>cl_AuthMechanism := authMechanism,
                      cl_Name := ccf_Name ccf,
                      cl_Server := ccf_Server ccf,
                      cl_GCPIntegrationID := ccf_GCPIntegrationID ccf,
                      cl_AWSIntegrationID := ccf_AWSIntegrationID ccf,
                      cl_CertificateAuthorityData := cert\<rparr>)))"

section \<open>The resolvers of \<^verbatim>\<open>ResolveClusterForm\<close>\<close>

text \<open>
  Every resolver ends the same way: the integration is handed to the repository; an
  error of the repository is returned, otherwise the identifier of the stored record.
  A resolver takes the store and returns it with its outcome.
\<close>

definition writeKubeIntegration ::
  "'s Repository \<Rightarrow> KubeIntegration \<Rightarrow> 's \<Rightarrow> nat outcome \<times> 's" where
  "writeKubeIntegration repo ki s =
     (case CreateKubeIntegration repo ki s of
        (Inl err, s') \<Rightarrow> (Failed err, s')
      | (Inr ki', s') \<Rightarrow> (Ok (ki_ID ki'), s'))"

definition writeOIDCIntegration ::
  "'s Repository \<Rightarrow> OIDCIntegration \<Rightarrow> 's \<Rightarrow> nat outcome \<times> 's" where
  "writeOIDCIntegration repo oidc s =
     (case CreateOIDCIntegration repo oidc s of
        (Inl err, s') \<Rightarrow> (Failed err, s')
      | (Inr oidc', s') \<Rightarrow> (Ok (oidc_ID oidc'), s'))"

definition writeGCPIntegration ::
  "'s Repository \<Rightarrow> GCPIntegration \<Rightarrow> 's \<Rightarrow> nat outcome \<times> 's" where
  "writeGCPIntegration repo gcp s =
     (case CreateGCPIntegration repo gcp s of
        (Inl err, s') \<Rightarrow> (Failed err, s')
      | (Inr gcp', s') \<Rightarrow> (Ok (gcp_ID gcp'), s'))"

definition writeAWSIntegration ::
  "'s Repository \<Rightarrow> AWSIntegration \<Rightarrow> 's \<Rightarrow> nat outcome \<times> 's" where
  "writeAWSIntegration repo aws s =
     (case CreateAWSIntegration repo aws s of
        (Inl err, s') \<Rightarrow> (Failed err, s')
      | (Inr aws', s') \<Rightarrow> (Ok (aws_ID aws'), s'))"

text \<open>
  \<^verbatim>\<open>authInfo\<close> is the pointer found in the kubeconfig (\<open>None\<close> is nil), and
  \<^verbatim>\<open>rcf.Resolver\<close> and \<^verbatim>\<open>rcf.ClusterCandidate\<close> are pointers as well: reading a
  field through a nil pointer panics. No resolver touches the store before its last
  dereference, so a panic leaves the store as it was.
\<close>

definition resolveX509 ::
  "'s Repository \<Rightarrow> ResolveClusterForm \<Rightarrow> AuthInfo option \<Rightarrow> 's \<Rightarrow> nat outcome \<times> 's" where
  "resolveX509 repo rcf authInfo s =
     (case authInfo of
        None \<Rightarrow> (Panic, s)
      | Some ai \<Rightarrow>
     (case rcf_Resolver rcf of
        None \<Rightarrow> (Panic, s)
      | Some resolver \<Rightarrow>
     (let ki = newKubeIntegration KubeX509 (rcf_UserID rcf) (rcf_ProjectID rcf);
          ki = (if length (ai_ClientCertificateData ai) > 0
                then ki\<lparr>ki_ClientCertificateData := ai_ClientCertificateData ai\<rparr> else ki);
          ki = (if length (ai_ClientKeyData ai) > 0
                then ki\<lparr>ki_ClientKeyData := ai_ClientKeyData ai\<rparr> else ki)
      in
     (case (if cra_ClientCertData resolver \<noteq> []
            then (case DecodeString (cra_ClientCertData resolver) of
                    Inl err \<Rightarrow> Inl err
                  | Inr decoded \<Rightarrow> Inr (ki\<lparr>ki_ClientCertificateData := decoded\<rparr>))
            else Inr ki) of
        Inl err \<Rightarrow> (Failed err, s)
      | Inr ki \<Rightarrow>
     (case (if cra_ClientKeyData resolver \<noteq> []
            then (case DecodeString (cra_ClientKeyData resolver) of
                    Inl err \<Rightarrow> Inl err
                  | Inr decoded \<Rightarrow> Inr (ki\<lparr>ki_ClientKeyData := decoded\<rparr>))
            else Inr ki) of
        Inl err \<Rightarrow> (Failed err, s)
      | Inr ki \<Rightarrow>
          (if length (ki_ClientCertificateData ki) = 0 \<or> length (ki_ClientKeyData ki) = 0
           then (Failed (ErrorString ''could not resolve kube integration (x509)''), s)
           else writeKubeIntegration repo ki s))))))"

definition resolveToken ::
  "'s Repository \<Rightarrow> ResolveClusterForm \<Rightarrow> AuthInfo option \<Rightarrow> 's \<Rightarrow> nat outcome \<times> 's" where
  "resolveToken repo rcf authInfo s =
     (case authInfo of
        None \<Rightarrow> (Panic, s)
      | Some ai \<Rightarrow>
     (case rcf_Resolver rcf of
        None \<Rightarrow> (Panic, s)
      | Some resolver \<Rightarrow>
     (let ki = newKubeIntegration KubeBearer (rcf_UserID rcf) (rcf_ProjectID rcf);
          ki = (if length (ai_Token ai) > 0 then ki\<lparr>ki_Token := ai_Token ai\<rparr> else ki);
          ki = (if cra_TokenData resolver \<noteq> []
                then ki\<lparr>ki_Token := cra_TokenData resolver\<rparr> else ki)
      in if length (ki_Token ki) = 0
         then (Failed (ErrorString ''could not resolve kube integration (token)''), s)
         else writeKubeIntegration repo ki s)))"

definition resolveBasic ::
  "'s Repository \<Rightarrow> ResolveClusterForm \<Rightarrow> AuthInfo option \<Rightarrow> 's \<Rightarrow> nat outcome \<times> 's" where
  "resolveBasic repo rcf authInfo s =
     (case authInfo of
        None \<Rightarrow> (Panic, s)
      | Some ai \<Rightarrow>
     (let ki = newKubeIntegration KubeBasic (rcf_UserID rcf) (rcf_ProjectID rcf);
          ki = (if length (ai_Username ai) > 0 then ki\<lparr>ki_Username := ai_Username ai\<rparr> else ki);
          ki = (if length (ai_Password ai) > 0 then ki\<lparr>ki_Password := ai_Password ai\<rparr> else ki)
      in if length (ki_Username ki) = 0 \<or> length (ki_Password ki) = 0
         then (Failed (ErrorString ''could not resolve kube integration (basic)''), s)
         else writeKubeIntegration repo ki s))"

definition resolveLocal ::
  "'s Repository \<Rightarrow> ResolveClusterForm \<Rightarrow> AuthInfo option \<Rightarrow> 's \<Rightarrow> nat outcome \<times> 's" where
  "resolveLocal repo rcf authInfo s =
     (case rcf_ClusterCandidate rcf of
        None \<Rightarrow> (Panic, s)
      | Some cc \<Rightarrow>
          writeKubeIntegration repo
            ((newKubeIntegration KubeLocal (rcf_UserID rcf) (rcf_ProjectID rcf))
               \<lparr>ki_Kubeconfig := cc_Kubeconfig cc\<rparr>) s)"

text \<open>
  A key of the provider configuration that is present sets its field, also when its
  value is the empty string.
\<close>

definition resolveOIDC ::
  "'s Repository \<Rightarrow> ResolveClusterForm \<Rightarrow> AuthInfo option \<Rightarrow> 's \<Rightarrow> nat outcome \<times> 's" where
  "resolveOIDC repo rcf authInfo s =
     (case authInfo of
        None \<Rightarrow> (Panic, s)
      | Some ai \<Rightarrow>
     (case ai_AuthProvider ai of
        None \<Rightarrow> (Panic, s)
      | Some authProvider \<Rightarrow>
     (let oidc = newOIDCIntegration (rcf_UserID rcf) (rcf_ProjectID rcf);
          oidc = (case apc_Config authProvider ''idp-issuer-url'' of
                    Some url \<Rightarrow> oidc\<lparr>oidc_IssuerURL := url\<rparr> | None \<Rightarrow> oidc);
          oidc = (case apc_Config authProvider ''client-id'' of
                    Some clientID \<Rightarrow> oidc\<lparr>oidc_ClientID := clientID\<rparr> | None \<Rightarrow> oidc);
          oidc = (case apc_Config authProvider ''client-secret'' of
                    Some clientSecret \<Rightarrow> oidc\<lparr>oidc_ClientSecret := clientSecret\<rparr>
                  | None \<Rightarrow> oidc);
          oidc = (case apc_Config authProvider ''idp-certificate-authority-data'' of
                    Some caData \<Rightarrow> oidc\<lparr>oidc_CertificateAuthorityData := caData\<rparr>
                  | None \<Rightarrow> oidc);
          oidc = (case apc_Config authProvider ''id-token'' of
                    Some idToken \<Rightarrow> oidc\<lparr>oidc_IDToken := idToken\<rparr> | None \<Rightarrow> oidc);
          oidc = (case apc_Config authProvider ''refresh-token'' of
                    Some refreshToken \<Rightarrow> oidc\<lparr>oidc_RefreshToken := refreshToken\<rparr>
                  | None \<Rightarrow> oidc)
      in
     (case rcf_Resolver rcf of
        None \<Rightarrow> (Panic, s)
      | Some resolver \<Rightarrow>
          writeOIDCIntegration repo
            (if cra_OIDCIssuerCAData resolver \<noteq> []
             then oidc\<lparr>oidc_CertificateAuthorityData := cra_OIDCIssuerCAData resolver\<rparr>
             else oidc) s))))"

definition resolveGCP ::
  "'s Repository \<Rightarrow> ResolveClusterForm \<Rightarrow> AuthInfo option \<Rightarrow> 's \<Rightarrow> nat outcome \<times> 's" where
  "resolveGCP repo rcf authInfo s =
     (case rcf_Resolver rcf of
        None \<Rightarrow> (Panic, s)
      | Some resolver \<Rightarrow>
     (let gcp = newGCPIntegration (rcf_UserID rcf) (rcf_ProjectID rcf);
          gcp = (if cra_GCPKeyData resolver \<noteq> []
                 then gcp\<lparr>gcp_GCPKeyData := cra_GCPKeyData resolver\<rparr> else gcp)
      in if length (gcp_GCPKeyData gcp) = 0
         then (Failed (ErrorString ''could not resolve gcp integration''), s)
         else writeGCPIntegration repo gcp s))"

definition resolveAWS ::
  "'s Repository \<Rightarrow> ResolveClusterForm \<Rightarrow> AuthInfo option \<Rightarrow> 's \<Rightarrow> nat outcome \<times> 's" where
  "resolveAWS repo rcf authInfo s =
     (case rcf_Resolver rcf of
        None \<Rightarrow> (Panic, s)
      | Some resolver \<Rightarrow>
     (let aws = newAWSIntegration (rcf_UserID rcf) (rcf_ProjectID rcf);
          aws = (if cra_AWSClusterID resolver \<noteq> []
                 then aws\<lparr>aws_AWSClusterID := cra_AWSClusterID resolver\<rparr> else aws);
          aws = (if cra_AWSAccessKeyID resolver \<noteq> []
                 then aws\<lparr>aws_AWSAccessKeyID := cra_AWSAccessKeyID resolver\<rparr> else aws);
          aws = (if cra_AWSSecretAccessKey resolver \<noteq> []
                 then aws\<lparr>aws_AWSSecretAccessKey := cra_AWSSecretAccessKey resolver\<rparr>
                 else aws)
      in if length (aws_AWSClusterID aws) = 0 \<or> length (aws_AWSAccessKeyID aws) = 0
            \<or> length (aws_AWSSecretAccessKey aws) = 0
         then (Failed (ErrorString ''could not resolve aws integration''), s)
         else writeAWSIntegration repo aws s))"

section \<open>\<^verbatim>\<open>ResolveIntegration\<close> and \<^verbatim>\<open>buildCluster\<close>\<close>

text \<open>
  \<^verbatim>\<open>ResolveIntegration\<close> fills the form in as it goes, so the form is returned with
  the outcome and the store. \<^verbatim>\<open>kubernetes.GetRawConfigFromBytes\<close> is not among the
  source files; the parser is an argument. The \<^verbatim>\<open>switch\<close> has no default: on any
  other mechanism \<^verbatim>\<open>id\<close> (here \<open>ident\<close>) keeps its zero value and \<^verbatim>\<open>err\<close> is still nil.
\<close>

definition ResolveIntegration ::
  "(bytes \<Rightarrow> error + Config) \<Rightarrow> 's Repository \<Rightarrow> ResolveClusterForm \<Rightarrow> 's
     \<Rightarrow> unit outcome \<times> ResolveClusterForm \<times> 's" where
  "ResolveIntegration GetRawConfigFromBytes repo rcf s =
     (case ReadClusterCandidate repo (rcf_ClusterCandidateID rcf) s of
        Inl err \<Rightarrow> (Failed err, rcf, s)
      | Inr cc \<Rightarrow>
     (let rcf = rcf\<lparr>rcf_ClusterCandidate := Some cc\<rparr> in
     (case GetRawConfigFromBytes (cc_Kubeconfig cc) of
        Inl err \<Rightarrow> (Failed err, rcf, s)
      | Inr rawConf \<Rightarrow>
     (let rcf = rcf\<lparr>rcf_RawConf := Some rawConf\<rparr> in
     (case cfg_Contexts rawConf (cfg_CurrentContext rawConf) of
        None \<Rightarrow> (Panic, rcf, s)
      | Some context \<Rightarrow>
     (let authInfoName = ctx_AuthInfo context;
          authInfo = cfg_AuthInfos rawConf authInfoName
      in
     (case (case cc_AuthMechanism cc of
              X509 \<Rightarrow> resolveX509 repo rcf authInfo s
            | Bearer \<Rightarrow> resolveToken repo rcf authInfo s
            | Basic \<Rightarrow> resolveBasic repo rcf authInfo s
            | Local \<Rightarrow> resolveLocal repo rcf authInfo s
            | OIDC \<Rightarrow> resolveOIDC repo rcf authInfo s
            | GCP \<Rightarrow> resolveGCP repo rcf authInfo s
            | AWS \<Rightarrow> resolveAWS repo rcf authInfo s
            | OtherAuth _ \<Rightarrow> (Ok 0, s)) of
        (Panic, s') \<Rightarrow> (Panic, rcf, s')
      | (Failed err, s') \<Rightarrow> (Failed err, rcf, s')
      | (Ok ident, s') \<Rightarrow> (Ok (), rcf\<lparr>rcf_IntegrationID := ident\<rparr>, s'))))))))"

text \<open>
  \<^verbatim>\<open>buildCluster\<close> reads the form and returns the cluster. The dereferences come in
  the order of the source: the raw configuration, its current context, the candidate,
  the cluster and the user of the context, then the overrides; all of them precede
  the first error return.
\<close>

definition buildCluster :: "urlPackage \<Rightarrow> ResolveClusterForm \<Rightarrow> Cluster outcome" where
  "buildCluster url rcf =
     (case rcf_RawConf rcf of
        None \<Rightarrow> Panic
      | Some rawConf \<Rightarrow>
     (case cfg_Contexts rawConf (cfg_CurrentContext rawConf) of
        None \<Rightarrow> Panic
      | Some kcContext \<Rightarrow>
     (case rcf_ClusterCandidate rcf of
        None \<Rightarrow> Panic
      | Some cc \<Rightarrow>
     (case cfg_Clusters rawConf (ctx_Cluster kcContext) of
        None \<Rightarrow> Panic
      | Some kcCluster \<Rightarrow>
     (case cfg_AuthInfos rawConf (ctx_AuthInfo kcContext) of
        None \<Rightarrow> Panic
      | Some kcAuthInfo \<Rightarrow>
     (let cluster = zeroCluster
            \<lparr>cl_AuthMechanism := cc_AuthMechanism cc,
             cl_ProjectID := cc_ProjectID cc,
             cl_Name := cc_Name cc,
             cl_Server := cc_Server cc,
             cl_ClusterLocationOfOrigin := kc_LocationOfOrigin kcCluster,
             cl_TLSServerName := kc_TLSServerName kcCluster,
             cl_InsecureSkipTLSVerify := kc_InsecureSkipTLSVerify kcCluster,
             cl_UserLocationOfOrigin := ai_LocationOfOrigin kcAuthInfo,
             cl_UserImpersonate := ai_Impersonate kcAuthInfo\<rparr>;
          cluster = (if length (ai_ImpersonateGroups kcAuthInfo) > 0
                     then cluster\<lparr>cl_UserImpersonateGroups :=
                                     Join (ai_ImpersonateGroups kcAuthInfo) '',''\<rparr>
                     else cluster);
          cluster = (if length (kc_CertificateAuthorityData kcCluster) > 0
                     then cluster\<lparr>cl_CertificateAuthorityData :=
                                     kc_CertificateAuthorityData kcCluster\<rparr>
                     else cluster)
      in
     (case rcf_Resolver rcf of
        None \<Rightarrow> Panic
      | Some resolver \<Rightarrow>
     (case (if cra_ClusterCAData resolver \<noteq> []
            then (case DecodeString (cra_ClusterCAData resolver) of
                    Inl err \<Rightarrow> Inl err
                  | Inr decoded \<Rightarrow> Inr (cluster\<lparr>cl_CertificateAuthorityData := decoded\<rparr>))
            else Inr cluster) of
        Inl err \<Rightarrow> Failed err
      | Inr cluster \<Rightarrow>
     (case (if cra_ClusterHostname resolver \<noteq> []
            then (case url_Parse url (cl_Server cluster) of
                    Inl err \<Rightarrow> Inl err
                  | Inr serverURL \<Rightarrow>
                      Inr (cluster\<lparr>cl_Server := url_String url
                             (if Port serverURL = []
                              then serverURL\<lparr>url_Host := cra_ClusterHostname resolver\<rparr>
                              else serverURL\<lparr>url_Host :=
                                     cra_ClusterHostname resolver @ '':'' @ Port serverURL\<rparr>)\<rparr>))
            else Inr cluster) of
        Inl err \<Rightarrow> Failed err
      | Inr cluster \<Rightarrow>
          Ok (case cc_AuthMechanism cc of
                X509 \<Rightarrow> cluster\<lparr>cl_KubeIntegrationID := rcf_IntegrationID rcf\<rparr>
              | Bearer \<Rightarrow> cluster\<lparr>cl_KubeIntegrationID := rcf_IntegrationID rcf\<rparr>
              | Basic \<Rightarrow> cluster\<lparr>cl_KubeIntegrationID := rcf_IntegrationID rcf\<rparr>
              | Local \<Rightarrow> cluster\<lparr>cl_KubeIntegrationID := rcf_IntegrationID rcf\<rparr>
              | OIDC \<Rightarrow> cluster\<lparr>cl_OIDCIntegrationID := rcf_IntegrationID rcf\<rparr>
              | GCP \<Rightarrow> cluster\<lparr>cl_GCPIntegrationID := rcf_IntegrationID rcf\<rparr>
              | AWS \<Rightarrow> cluster\<lparr>cl_AWSIntegrationID := rcf_IntegrationID rcf\<rparr>
              | OtherAuth _ \<Rightarrow> cluster))))))))))"

section \<open>Collaborators to run the forms on\<close>

text \<open>
  Modelled from the spec: the in-memory repository that \<^verbatim>\<open>NewRepository\<close> returns
  (``persists in memory and accepts a parameter that can trigger read/write errors'');
  its entity repositories are not among the source files. A create stores the record
  and returns it with a generated identifier; a read of an unknown identifier fails.
  The theorems below hold for every repository; this one runs them on concrete inputs.
\<close>

record Store =
  st_ClusterCandidates :: "ClusterCandidate list"
  st_KubeIntegrations :: "KubeIntegration list"
  st_OIDCIntegrations :: "OIDCIntegration list"
  st_GCPIntegrations :: "GCPIntegration list"
  st_AWSIntegrations :: "AWSIntegration list"

definition NewRepository :: "bool \<Rightarrow> Store Repository" where
  "NewRepository canQuery =
     \<lparr>ReadClusterCandidate = (\<lambda>i s.
        if canQuery
        then (if 0 < i \<and> i \<le> length (st_ClusterCandidates s)
              then Inr (st_ClusterCandidates s ! (i - 1))
              else Inl (ExternalError ''record not found''))
        else Inl (ExternalError ''cannot read from database'')),
      CreateKubeIntegration = (\<lambda>ki s.
        if canQuery
        then (let ki' = ki\<lparr>ki_ID := Suc (length (st_KubeIntegrations s))\<rparr>
              in (Inr ki', s\<lparr>st_KubeIntegrations := st_KubeIntegrations s @ [ki']\<rparr>))
        else (Inl (ExternalError ''cannot write database''), s)),
      CreateOIDCIntegration = (\<lambda>oidc s.
        if canQuery
        then (let oidc' = oidc\<lparr>oidc_ID := Suc (length (st_OIDCIntegrations s))\<rparr>
              in (Inr oidc', s\<lparr>st_OIDCIntegrations := st_OIDCIntegrations s @ [oidc']\<rparr>))
        else (Inl (ExternalError ''cannot write database''), s)),
      CreateGCPIntegration = (\<lambda>gcp s.
        if canQuery
        then (let gcp' = gcp\<lparr>gcp_ID := Suc (length (st_GCPIntegrations s))\<rparr>
              in (Inr gcp', s\<lparr>st_GCPIntegrations := st_GCPIntegrations s @ [gcp']\<rparr>))
        else (Inl (ExternalError ''cannot write database''), s)),
      CreateAWSIntegration = (\<lambda>aws s.
        if canQuery
        then (let aws' = aws\<lparr>aws_ID := Suc (length (st_AWSIntegrations s))\<rparr>
              in (Inr aws', s\<lparr>st_AWSIntegrations := st_AWSIntegrations s @ [aws']\<rparr>))
        else (Inl (ExternalError ''cannot write database''), s))\<rparr>"

definition emptyStore :: Store where
  "emptyStore =
     \<lparr>st_ClusterCandidates = [], st_KubeIntegrations = [], st_OIDCIntegrations = [],
      st_GCPIntegrations = [], st_AWSIntegrations = []\<rparr>"

text \<open>
  Inputs to run the forms on: overrides and a user entry with every field empty, and
  two parsed kubeconfigs. \<open>testConfig\<close> is complete: its current context exists and
  names a cluster and a user that exist. \<open>basicConfig\<close> is the \<^verbatim>\<open>basic\<close> kubeconfig
  of the parser's tests: its current context is \<^verbatim>\<open>default\<close>, while the only context
  it declares is \<^verbatim>\<open>context-test\<close>.
\<close>

definition noOverrides :: ClusterResolverAll where
  "noOverrides =
     \<lparr>cra_ClusterCAData = [], cra_ClusterHostname = [], cra_ClientCertData = [],
      cra_ClientKeyData = [], cra_OIDCIssuerCAData = [], cra_TokenData = [],
      cra_GCPKeyData = [], cra_AWSAccessKeyID = [], cra_AWSSecretAccessKey = [],
      cra_AWSClusterID = []\<rparr>"

definition emptyAuthInfo :: AuthInfo where
  "emptyAuthInfo =
     \<lparr>ai_LocationOfOrigin = [], ai_ClientCertificateData = [], ai_ClientKeyData = [],
      ai_Token = [], ai_Impersonate = [], ai_ImpersonateGroups = [], ai_Username = [],
      ai_Password = [], ai_AuthProvider = None\<rparr>"

definition testCluster :: KubeCluster where
  "testCluster =
     \<lparr>kc_LocationOfOrigin = [], kc_TLSServerName = [], kc_InsecureSkipTLSVerify = False,
      kc_CertificateAuthorityData = []\<rparr>"

definition testContext :: Context where
  "testContext = \<lparr>ctx_Cluster = ''cluster-test'', ctx_AuthInfo = ''test-admin''\<rparr>"

definition testConfig :: "AuthInfo \<Rightarrow> Config" where
  "testConfig authInfo =
     \<lparr>cfg_Clusters = [''cluster-test'' \<mapsto> testCluster],
      cfg_AuthInfos = [''test-admin'' \<mapsto> authInfo],
      cfg_Contexts = [''context-test'' \<mapsto> testContext],
      cfg_CurrentContext = ''context-test''\<rparr>"

definition basicConfig :: Config where
  "basicConfig =
     \<lparr>cfg_Clusters = [''cluster-test'' \<mapsto> testCluster],
      cfg_AuthInfos = [''test-admin'' \<mapsto> emptyAuthInfo],
      cfg_Contexts = [''context-test'' \<mapsto> testContext],
      cfg_CurrentContext = ''default''\<rparr>"

definition testCandidate :: "ClusterAuth \<Rightarrow> ClusterCandidate" where
  "testCandidate mechanism =
     \<lparr>cc_AuthMechanism = mechanism, cc_ProjectID = 1, cc_Name = ''cluster-test'',
      cc_Server = ''https://old.example.com:6443'', cc_Kubeconfig = ''kubeconfig''\<rparr>"

definition testForm :: "ClusterResolverAll \<Rightarrow> ResolveClusterForm" where
  "testForm resolver =
     \<lparr>rcf_Resolver = Some resolver, rcf_ClusterCandidateID = 1, rcf_ProjectID = 1,
      rcf_UserID = 1, rcf_IntegrationID = 0, rcf_ClusterCandidate = None,
      rcf_RawConf = None\<rparr>"

definition testStore :: "ClusterAuth \<Rightarrow> Store" where
  "testStore mechanism = emptyStore\<lparr>st_ClusterCandidates := [testCandidate mechanism]\<rparr>"




section \<open>Facts about the decoder and the pattern\<close>

lemmas example_defs = noOverrides_def emptyAuthInfo_def testCluster_def testContext_def
  testConfig_def testCandidate_def testForm_def testStore_def emptyStore_def
  NewRepository_def

lemma index_of_mem: "c \<in> set xs \<Longrightarrow> \<exists>i. index_of xs c = Some i"
  by (induction xs) auto

lemma alphabet_codes:
  "list_all (\<lambda>n. char_of n \<in> set encodeStd) ([65..<91] @ [97..<123] @ [48..<58] :: nat list)"
  by code_simp

lemma reClass_alphabet: "reClass c \<Longrightarrow> c \<in> set encodeStd"
proof -
  assume h: "reClass c"
  define n where "n = (of_char c :: nat)"
  have c: "c = char_of n" by (simp add: n_def)
  from h have "(65 \<le> n \<and> n < 91) \<or> (97 \<le> n \<and> n < 123) \<or> (48 \<le> n \<and> n < 58) \<or> c = CHR ''+'' \<or> c = CHR ''/''"
    unfolding reClass_def n_def Let_def by linarith
  then have "n \<in> set ([65..<91] @ [97..<123] @ [48..<58]) \<or> c = CHR ''+'' \<or> c = CHR ''/''"
    by (simp only: set_append set_upt Un_iff atLeastLessThan_iff) blast
  moreover have "c = CHR ''+'' \<or> c = CHR ''/'' \<Longrightarrow> c \<in> set encodeStd"
    by (auto simp: encodeStd_def)
  moreover have "n \<in> set ([65..<91] @ [97..<123] @ [48..<58]) \<Longrightarrow> c \<in> set encodeStd"
    using alphabet_codes unfolding c list_all_iff by blast
  ultimately show ?thesis by blast
qed

lemma reClass_decodeMap: "reClass c \<Longrightarrow> \<exists>i. decodeMap c = Some i"
  unfolding decodeMap_def by (rule index_of_mem) (rule reClass_alphabet)

lemma reClass_not_break: "reClass c \<Longrightarrow> c \<noteq> CHR 0x0A \<and> c \<noteq> CHR 0x0D"
  by (auto simp: reClass_def)

lemma decodeMap_pad: "decodeMap CHR ''='' = None"
  by (simp add: decodeMap_def encodeStd_def)

lemma reMatchString_all:
  assumes cls: "\<And>c. reClass c \<Longrightarrow> Q c" and pad: "Q CHR ''=''"
  shows "reMatchString s \<Longrightarrow> list_all Q s"
proof (induction s rule: reMatchString.induct)
  case 1
  show ?case by simp
next
  case (2 a b c d rest)
  from "2.prems" have ab: "Q a" "Q b" using cls by simp_all
  from "2.prems" consider
      (full) "reClass c" "reClass d" "reMatchString rest"
    | (pad1) "rest = []" "reClass c" "d = CHR ''=''"
    | (pad2) "rest = []" "c = CHR ''=''" "d = CHR ''=''"
    by (simp only: reMatchString.simps) blast
  then show ?case
  proof cases
    case full
    with "2.IH" have "list_all Q rest" by blast
    with full ab cls show ?thesis by simp
  next
    case pad1
    with ab cls pad show ?thesis by simp
  next
    case pad2
    with ab pad show ?thesis by simp
  qed
qed simp_all

lemma reMatchString_no_break:
  "reMatchString s \<Longrightarrow> filter (\<lambda>c. c \<noteq> CHR 0x0A \<and> c \<noteq> CHR 0x0D) s = s"
proof -
  assume "reMatchString s"
  then have "list_all (\<lambda>c. c \<noteq> CHR 0x0A \<and> c \<noteq> CHR 0x0D) s"
    by (rule reMatchString_all [rotated 2]) (simp_all add: reClass_not_break)
  then show ?thesis by (simp add: list_all_iff)
qed

lemma reMatchString_decodeQuanta: "reMatchString s \<Longrightarrow> \<exists>bs. decodeQuanta s = Inr bs"
proof (induction s rule: reMatchString.induct)
  case 1
  show ?case by simp
next
  case (2 a b c d rest)
  from "2.prems" obtain d0 d1 where ab: "decodeMap a = Some d0" "decodeMap b = Some d1"
    using reClass_decodeMap by fastforce
  from "2.prems" consider
      (full) "reClass c" "reClass d" "reMatchString rest"
    | (pad1) "rest = []" "reClass c" "d = CHR ''=''"
    | (pad2) "rest = []" "c = CHR ''=''" "d = CHR ''=''"
    by (simp only: reMatchString.simps) blast
  then show ?case
  proof cases
    case full
    then obtain d2 d3 where cd: "decodeMap c = Some d2" "decodeMap d = Some d3"
      using reClass_decodeMap by blast
    from full "2.IH" obtain bs where "decodeQuanta rest = Inr bs" by blast
    with ab cd show ?thesis by simp
  next
    case pad1
    then obtain d2 where "decodeMap c = Some d2" using reClass_decodeMap by blast
    with ab pad1 show ?thesis by (simp add: decodeMap_pad)
  next
    case pad2
    with ab show ?thesis by (simp add: decodeMap_pad)
  qed
qed simp_all

lemma reMatchString_DecodeString: "reMatchString s \<Longrightarrow> \<exists>bs. DecodeString s = Inr bs"
  by (simp add: DecodeString_def reMatchString_no_break reMatchString_decodeQuanta)

lemma decode_examples:
  "DecodeString ''QUJD'' = Inr ''ABC''"
  "DecodeString ''QUI='' = Inr ''AB''"
  "DecodeString ''@@@@'' = Inl CorruptInputError"
  by (simp_all add: DecodeString_def decodeMap_def encodeStd_def assemble_def char_of_def)

section \<open>What each resolver computes\<close>

text \<open>
  With the pointers in place, each resolver is a merge of the raw fields and the
  overrides, a check of the required fields, and a write.
\<close>

lemma resolveToken_eq:
  assumes "rcf_Resolver rcf = Some resolver"
  shows "resolveToken repo rcf (Some ai) s =
     (let token = (if cra_TokenData resolver \<noteq> [] then cra_TokenData resolver else ai_Token ai)
      in if token = []
         then (Failed (ErrorString ''could not resolve kube integration (token)''), s)
         else writeKubeIntegration repo
                ((newKubeIntegration KubeBearer (rcf_UserID rcf) (rcf_ProjectID rcf))
                   \<lparr>ki_Token := token\<rparr>) s)"
  using assms by (simp add: resolveToken_def newKubeIntegration_def Let_def)

lemma resolveX509_eq:
  assumes "rcf_Resolver rcf = Some resolver"
  shows "resolveX509 repo rcf (Some ai) s =
     (case (if cra_ClientCertData resolver \<noteq> [] then DecodeString (cra_ClientCertData resolver)
            else Inr (ai_ClientCertificateData ai)) of
        Inl err \<Rightarrow> (Failed err, s)
      | Inr cert \<Rightarrow>
     (case (if cra_ClientKeyData resolver \<noteq> [] then DecodeString (cra_ClientKeyData resolver)
            else Inr (ai_ClientKeyData ai)) of
        Inl err \<Rightarrow> (Failed err, s)
      | Inr key \<Rightarrow>
          if cert = [] \<or> key = []
          then (Failed (ErrorString ''could not resolve kube integration (x509)''), s)
          else writeKubeIntegration repo
                 ((newKubeIntegration KubeX509 (rcf_UserID rcf) (rcf_ProjectID rcf))
                    \<lparr>ki_ClientCertificateData := cert, ki_ClientKeyData := key\<rparr>) s))"
  using assms
  by (simp add: resolveX509_def newKubeIntegration_def Let_def split: sum.split)

lemma resolveBasic_eq:
  "resolveBasic repo rcf (Some ai) s =
     (if ai_Username ai = [] \<or> ai_Password ai = []
      then (Failed (ErrorString ''could not resolve kube integration (basic)''), s)
      else writeKubeIntegration repo
             ((newKubeIntegration KubeBasic (rcf_UserID rcf) (rcf_ProjectID rcf))
                \<lparr>ki_Username := ai_Username ai, ki_Password := ai_Password ai\<rparr>) s)"
  by (simp add: resolveBasic_def newKubeIntegration_def Let_def)

lemma resolveGCP_eq:
  assumes "rcf_Resolver rcf = Some resolver"
  shows "resolveGCP repo rcf authInfo s =
     (if cra_GCPKeyData resolver = []
      then (Failed (ErrorString ''could not resolve gcp integration''), s)
      else writeGCPIntegration repo
             ((newGCPIntegration (rcf_UserID rcf) (rcf_ProjectID rcf))
                \<lparr>gcp_GCPKeyData := cra_GCPKeyData resolver\<rparr>) s)"
  using assms by (simp add: resolveGCP_def newGCPIntegration_def Let_def)

lemma resolveAWS_eq:
  assumes "rcf_Resolver rcf = Some resolver"
  shows "resolveAWS repo rcf authInfo s =
     (if cra_AWSClusterID resolver = [] \<or> cra_AWSAccessKeyID resolver = []
         \<or> cra_AWSSecretAccessKey resolver = []
      then (Failed (ErrorString ''could not resolve aws integration''), s)
      else writeAWSIntegration repo
             ((newAWSIntegration (rcf_UserID rcf) (rcf_ProjectID rcf))
                \<lparr>aws_AWSClusterID := cra_AWSClusterID resolver,
                 aws_AWSAccessKeyID := cra_AWSAccessKeyID resolver,
                 aws_AWSSecretAccessKey := cra_AWSSecretAccessKey resolver\<rparr>) s)"
  using assms by (simp add: resolveAWS_def newAWSIntegration_def Let_def)

lemma resolveOIDC_eq:
  assumes "rcf_Resolver rcf = Some resolver" and "ai_AuthProvider ai = Some authProvider"
  shows "resolveOIDC repo rcf (Some ai) s =
     writeOIDCIntegration repo
       \<lparr>oidc_ID = 0, oidc_Client = OIDCKube, oidc_UserID = rcf_UserID rcf,
        oidc_ProjectID = rcf_ProjectID rcf,
        oidc_IssuerURL = (case apc_Config authProvider ''idp-issuer-url'' of Some v \<Rightarrow> v | None \<Rightarrow> []),
        oidc_ClientID = (case apc_Config authProvider ''client-id'' of Some v \<Rightarrow> v | None \<Rightarrow> []),
        oidc_ClientSecret = (case apc_Config authProvider ''client-secret'' of Some v \<Rightarrow> v | None \<Rightarrow> []),
        oidc_CertificateAuthorityData =
          (if cra_OIDCIssuerCAData resolver \<noteq> [] then cra_OIDCIssuerCAData resolver
           else (case apc_Config authProvider ''idp-certificate-authority-data'' of Some v \<Rightarrow> v | None \<Rightarrow> [])),
        oidc_IDToken = (case apc_Config authProvider ''id-token'' of Some v \<Rightarrow> v | None \<Rightarrow> []),
        oidc_RefreshToken = (case apc_Config authProvider ''refresh-token'' of Some v \<Rightarrow> v | None \<Rightarrow> [])\<rparr> s"
  using assms
  by (simp add: resolveOIDC_def newOIDCIntegration_def Let_def split: option.split)





section \<open>What the builder computes\<close>

text \<open>
  The last \<^verbatim>\<open>switch\<close> of \<^verbatim>\<open>buildCluster\<close> writes one slot and leaves every
  other field alone.
\<close>

lemma attach_slots:
  "cl_KubeIntegrationID
     (case m of
        X509 \<Rightarrow> c\<lparr>cl_KubeIntegrationID := i\<rparr>
      | Bearer \<Rightarrow> c\<lparr>cl_KubeIntegrationID := i\<rparr>
      | Basic \<Rightarrow> c\<lparr>cl_KubeIntegrationID := i\<rparr>
      | Local \<Rightarrow> c\<lparr>cl_KubeIntegrationID := i\<rparr>
      | OIDC \<Rightarrow> c\<lparr>cl_OIDCIntegrationID := i\<rparr>
      | GCP \<Rightarrow> c\<lparr>cl_GCPIntegrationID := i\<rparr>
      | AWS \<Rightarrow> c\<lparr>cl_AWSIntegrationID := i\<rparr>
      | OtherAuth x \<Rightarrow> c)
   = (if m \<in> {X509, Bearer, Basic, Local} then i else cl_KubeIntegrationID c)"
  "cl_OIDCIntegrationID
     (case m of
        X509 \<Rightarrow> c\<lparr>cl_KubeIntegrationID := i\<rparr>
      | Bearer \<Rightarrow> c\<lparr>cl_KubeIntegrationID := i\<rparr>
      | Basic \<Rightarrow> c\<lparr>cl_KubeIntegrationID := i\<rparr>
      | Local \<Rightarrow> c\<lparr>cl_KubeIntegrationID := i\<rparr>
      | OIDC \<Rightarrow> c\<lparr>cl_OIDCIntegrationID := i\<rparr>
      | GCP \<Rightarrow> c\<lparr>cl_GCPIntegrationID := i\<rparr>
      | AWS \<Rightarrow> c\<lparr>cl_AWSIntegrationID := i\<rparr>
      | OtherAuth x \<Rightarrow> c)
   = (if m = OIDC then i else cl_OIDCIntegrationID c)"
  "cl_GCPIntegrationID
     (case m of
        X509 \<Rightarrow> c\<lparr>cl_KubeIntegrationID := i\<rparr>
      | Bearer \<Rightarrow> c\<lparr>cl_KubeIntegrationID := i\<rparr>
      | Basic \<Rightarrow> c\<lparr>cl_KubeIntegrationID := i\<rparr>
      | Local \<Rightarrow> c\<lparr>cl_KubeIntegrationID := i\<rparr>
      | OIDC \<Rightarrow> c\<lparr>cl_OIDCIntegrationID := i\<rparr>
      | GCP \<Rightarrow> c\<lparr>cl_GCPIntegrationID := i\<rparr>
      | AWS \<Rightarrow> c\<lparr>cl_AWSIntegrationID := i\<rparr>
      | OtherAuth x \<Rightarrow> c)
   = (if m = GCP then i else cl_GCPIntegrationID c)"
  "cl_AWSIntegrationID
     (case m of
        X509 \<Rightarrow> c\<lparr>cl_KubeIntegrationID := i\<rparr>
      | Bearer \<Rightarrow> c\<lparr>cl_KubeIntegrationID := i\<rparr>
      | Basic \<Rightarrow> c\<lparr>cl_KubeIntegrationID := i\<rparr>
      | Local \<Rightarrow> c\<lparr>cl_KubeIntegrationID := i\<rparr>
      | OIDC \<Rightarrow> c\<lparr>cl_OIDCIntegrationID := i\<rparr>
      | GCP \<Rightarrow> c\<lparr>cl_GCPIntegrationID := i\<rparr>
      | AWS \<Rightarrow> c\<lparr>cl_AWSIntegrationID := i\<rparr>
      | OtherAuth x \<Rightarrow> c)
   = (if m = AWS then i else cl_AWSIntegrationID c)"
  "cl_Server
     (case m of
        X509 \<Rightarrow> c\<lparr>cl_KubeIntegrationID := i\<rparr>
      | Bearer \<Rightarrow> c\<lparr>cl_KubeIntegrationID := i\<rparr>
      | Basic \<Rightarrow> c\<lparr>cl_KubeIntegrationID := i\<rparr>
      | Local \<Rightarrow> c\<lparr>cl_KubeIntegrationID := i\<rparr>
      | OIDC \<Rightarrow> c\<lparr>cl_OIDCIntegrationID := i\<rparr>
      | GCP \<Rightarrow> c\<lparr>cl_GCPIntegrationID := i\<rparr>
      | AWS \<Rightarrow> c\<lparr>cl_AWSIntegrationID := i\<rparr>
      | OtherAuth x \<Rightarrow> c)
   = cl_Server c"
  "cl_AuthMechanism
     (case m of
        X509 \<Rightarrow> c\<lparr>cl_KubeIntegrationID := i\<rparr>
      | Bearer \<Rightarrow> c\<lparr>cl_KubeIntegrationID := i\<rparr>
      | Basic \<Rightarrow> c\<lparr>cl_KubeIntegrationID := i\<rparr>
      | Local \<Rightarrow> c\<lparr>cl_KubeIntegrationID := i\<rparr>
      | OIDC \<Rightarrow> c\<lparr>cl_OIDCIntegrationID := i\<rparr>
      | GCP \<Rightarrow> c\<lparr>cl_GCPIntegrationID := i\<rparr>
      | AWS \<Rightarrow> c\<lparr>cl_AWSIntegrationID := i\<rparr>
      | OtherAuth x \<Rightarrow> c)
   = cl_AuthMechanism c"
  by (cases m; simp)+

text \<open>
  A build that does not panic found every pointer it reads, and then it is the
  following function of what they point to.
\<close>

lemma buildCluster_pointers:
  assumes "buildCluster url rcf \<noteq> Panic"
  shows "\<exists>rawConf kcContext cc kcCluster kcAuthInfo resolver.
           rcf_RawConf rcf = Some rawConf
           \<and> cfg_Contexts rawConf (cfg_CurrentContext rawConf) = Some kcContext
           \<and> rcf_ClusterCandidate rcf = Some cc
           \<and> cfg_Clusters rawConf (ctx_Cluster kcContext) = Some kcCluster
           \<and> cfg_AuthInfos rawConf (ctx_AuthInfo kcContext) = Some kcAuthInfo
           \<and> rcf_Resolver rcf = Some resolver"
proof -
  from assms obtain rawConf where 1: "rcf_RawConf rcf = Some rawConf"
    by (cases "rcf_RawConf rcf") (simp_all add: buildCluster_def)
  from assms 1 obtain kcContext
    where 2: "cfg_Contexts rawConf (cfg_CurrentContext rawConf) = Some kcContext"
    by (cases "cfg_Contexts rawConf (cfg_CurrentContext rawConf)")
       (simp_all add: buildCluster_def)
  from assms 1 2 obtain cc where 3: "rcf_ClusterCandidate rcf = Some cc"
    by (cases "rcf_ClusterCandidate rcf") (simp_all add: buildCluster_def)
  from assms 1 2 3 obtain kcCluster
    where 4: "cfg_Clusters rawConf (ctx_Cluster kcContext) = Some kcCluster"
    by (cases "cfg_Clusters rawConf (ctx_Cluster kcContext)")
       (simp_all add: buildCluster_def)
  from assms 1 2 3 4 obtain kcAuthInfo
    where 5: "cfg_AuthInfos rawConf (ctx_AuthInfo kcContext) = Some kcAuthInfo"
    by (cases "cfg_AuthInfos rawConf (ctx_AuthInfo kcContext)")
       (simp_all add: buildCluster_def)
  from assms 1 2 3 4 5 obtain resolver where 6: "rcf_Resolver rcf = Some resolver"
    by (cases "rcf_Resolver rcf") (simp_all add: buildCluster_def Let_def)
  from 1 2 3 4 5 6 show ?thesis by blast
qed

lemma buildCluster_eq:
  assumes "rcf_RawConf rcf = Some rawConf"
    and "cfg_Contexts rawConf (cfg_CurrentContext rawConf) = Some kcContext"
    and "rcf_ClusterCandidate rcf = Some cc"
    and "cfg_Clusters rawConf (ctx_Cluster kcContext) = Some kcCluster"
    and "cfg_AuthInfos rawConf (ctx_AuthInfo kcContext) = Some kcAuthInfo"
    and "rcf_Resolver rcf = Some resolver"
  shows "buildCluster url rcf =
     (case (if cra_ClusterCAData resolver \<noteq> [] then DecodeString (cra_ClusterCAData resolver)
            else Inr (kc_CertificateAuthorityData kcCluster)) of
        Inl err \<Rightarrow> Failed err
      | Inr ca \<Rightarrow>
     (case (if cra_ClusterHostname resolver \<noteq> []
            then (case url_Parse url (cc_Server cc) of
                    Inl err \<Rightarrow> Inl err
                  | Inr serverURL \<Rightarrow>
                      Inr (url_String url
                             (serverURL\<lparr>url_Host :=
                                if Port serverURL = [] then cra_ClusterHostname resolver
                                else cra_ClusterHostname resolver @ '':'' @ Port serverURL\<rparr>)))
            else Inr (cc_Server cc)) of
        Inl err \<Rightarrow> Failed err
      | Inr server \<Rightarrow>
          Ok (let c = \<lparr>cl_AuthMechanism = cc_AuthMechanism cc, cl_ProjectID = cc_ProjectID cc,
                 cl_Name = cc_Name cc, cl_Server = server,
                 cl_ClusterLocationOfOrigin = kc_LocationOfOrigin kcCluster,
                 cl_TLSServerName = kc_TLSServerName kcCluster,
                 cl_InsecureSkipTLSVerify = kc_InsecureSkipTLSVerify kcCluster,
                 cl_UserLocationOfOrigin = ai_LocationOfOrigin kcAuthInfo,
                 cl_UserImpersonate = ai_Impersonate kcAuthInfo,
                 cl_UserImpersonateGroups =
                   (if ai_ImpersonateGroups kcAuthInfo = [] then []
                    else Join (ai_ImpersonateGroups kcAuthInfo) '',''),
                 cl_CertificateAuthorityData = ca,
                 cl_KubeIntegrationID = 0, cl_OIDCIntegrationID = 0,
                 cl_GCPIntegrationID = 0, cl_AWSIntegrationID = 0\<rparr>
              in case cc_AuthMechanism cc of
                X509 \<Rightarrow> c\<lparr>cl_KubeIntegrationID := rcf_IntegrationID rcf\<rparr>
              | Bearer \<Rightarrow> c\<lparr>cl_KubeIntegrationID := rcf_IntegrationID rcf\<rparr>
              | Basic \<Rightarrow> c\<lparr>cl_KubeIntegrationID := rcf_IntegrationID rcf\<rparr>
              | Local \<Rightarrow> c\<lparr>cl_KubeIntegrationID := rcf_IntegrationID rcf\<rparr>
              | OIDC \<Rightarrow> c\<lparr>cl_OIDCIntegrationID := rcf_IntegrationID rcf\<rparr>
              | GCP \<Rightarrow> c\<lparr>cl_GCPIntegrationID := rcf_IntegrationID rcf\<rparr>
              | AWS \<Rightarrow> c\<lparr>cl_AWSIntegrationID := rcf_IntegrationID rcf\<rparr>
              | OtherAuth x \<Rightarrow> c)))"
  using assms
  by (cases "cc_AuthMechanism cc")
     (simp_all add: buildCluster_def zeroCluster_def Let_def split: sum.split)

lemma buildCluster_slots:
  assumes ok: "buildCluster url rcf = Ok cluster" and cc: "rcf_ClusterCandidate rcf = Some cc"
  shows "cl_KubeIntegrationID cluster
           = (if cc_AuthMechanism cc \<in> {X509, Bearer, Basic, Local}
              then rcf_IntegrationID rcf else 0)
       \<and> cl_OIDCIntegrationID cluster
           = (if cc_AuthMechanism cc = OIDC then rcf_IntegrationID rcf else 0)
       \<and> cl_GCPIntegrationID cluster
           = (if cc_AuthMechanism cc = GCP then rcf_IntegrationID rcf else 0)
       \<and> cl_AWSIntegrationID cluster
           = (if cc_AuthMechanism cc = AWS then rcf_IntegrationID rcf else 0)
       \<and> cl_AuthMechanism cluster = cc_AuthMechanism cc"
proof -
  from ok have "buildCluster url rcf \<noteq> Panic" by simp
  from buildCluster_pointers [OF this] cc
  obtain rawConf kcContext kcCluster kcAuthInfo resolver
    where p: "rcf_RawConf rcf = Some rawConf"
      "cfg_Contexts rawConf (cfg_CurrentContext rawConf) = Some kcContext"
      "cfg_Clusters rawConf (ctx_Cluster kcContext) = Some kcCluster"
      "cfg_AuthInfos rawConf (ctx_AuthInfo kcContext) = Some kcAuthInfo"
      "rcf_Resolver rcf = Some resolver"
    by auto
  note eq = buildCluster_eq [OF p(1) p(2) cc p(3) p(4) p(5), of url]
  from ok [unfolded eq] show ?thesis
    by (auto simp add: Let_def attach_slots simp del: insert_iff split: sum.splits)
qed

lemma at_most_one_credential_slot:
  assumes "buildCluster url rcf = Ok cluster"
  shows "length (filter (\<lambda>slot. slot \<noteq> 0)
           [cl_KubeIntegrationID cluster, cl_OIDCIntegrationID cluster,
            cl_GCPIntegrationID cluster, cl_AWSIntegrationID cluster]) \<le> 1"
proof -
  from assms have "buildCluster url rcf \<noteq> Panic" by simp
  from buildCluster_pointers [OF this] obtain cc where "rcf_ClusterCandidate rcf = Some cc"
    by blast
  from buildCluster_slots [OF assms this] show ?thesis
    by (cases "cc_AuthMechanism cc") simp_all
qed




section \<open>Facts about \<^verbatim>\<open>net/url\<close>\<close>

text \<open>
  Where \<^verbatim>\<open>String\<close> puts the host: after the scheme and the user information, before
  the path, escaped as a host. An opaque URL is printed without it.
\<close>

lemma EscapedPath_Host [simp]: "EscapedPath (u\<lparr>url_Host := host\<rparr>) = EscapedPath u"
  by (simp add: EscapedPath_def)

lemma EscapedFragment_Host [simp]: "EscapedFragment (u\<lparr>url_Host := host\<rparr>) = EscapedFragment u"
  by (simp add: EscapedFragment_def)








section \<open>The claims\<close>

subsection \<open>A mechanism tag that is none of the seven\<close>

text \<open>
  The dispatch on a tag it does not know, run on a complete kubeconfig: the form is
  returned with the candidate and the configuration filled in, the identifier still zero
  and the outcome a success; the store is as it was.
\<close>

theorem unknown_mechanism_succeeds:
  "ResolveIntegration (\<lambda>kubeconfig. Inr (testConfig emptyAuthInfo)) (NewRepository True)
      (testForm noOverrides) (testStore (OtherAuth ''kerberos''))
   = (Ok (),
      (testForm noOverrides)
        \<lparr>rcf_ClusterCandidate := Some (testCandidate (OtherAuth ''kerberos'')),
         rcf_RawConf := Some (testConfig emptyAuthInfo)\<rparr>,
      testStore (OtherAuth ''kerberos''))"
  by (simp add: ResolveIntegration_def example_defs)

text \<open>
  Claim C1: for a candidate whose mechanism tag is none of the seven known ones,
  \<^verbatim>\<open>ResolveIntegration\<close> fails with an unsupported-mechanism error. The code has
  no such error and its \<^verbatim>\<open>switch\<close> no default. What holds instead: once the
  candidate is read, its kubeconfig parsed and the current context found, no resolver
  runs, the store is unchanged, \<^verbatim>\<open>IntegrationID\<close> is set to zero and the call
  returns without error and without panic.
\<close>

theorem unknown_mechanism_resolves_nothing:
  assumes "ReadClusterCandidate repo (rcf_ClusterCandidateID rcf) s = Inr cc"
    and "cc_AuthMechanism cc = OtherAuth tag"
    and "GetRawConfigFromBytes (cc_Kubeconfig cc) = Inr rawConf"
    and "cfg_Contexts rawConf (cfg_CurrentContext rawConf) = Some context"
  shows "ResolveIntegration GetRawConfigFromBytes repo rcf s
         = (Ok (),
            rcf\<lparr>rcf_ClusterCandidate := Some cc, rcf_RawConf := Some rawConf,
                rcf_IntegrationID := 0\<rparr>,
            s)"
  using assms by (simp add: ResolveIntegration_def)

theorem unknown_mechanism_resolves_nothing_witness:
  "ReadClusterCandidate (NewRepository True) (rcf_ClusterCandidateID (testForm noOverrides))
       (testStore (OtherAuth ''kerberos'')) = Inr (testCandidate (OtherAuth ''kerberos''))
   \<and> cc_AuthMechanism (testCandidate (OtherAuth ''kerberos'')) = OtherAuth ''kerberos''
   \<and> cfg_Contexts (testConfig emptyAuthInfo) (cfg_CurrentContext (testConfig emptyAuthInfo))
       = Some testContext
   \<and> ResolveIntegration (\<lambda>kubeconfig. Inr (testConfig emptyAuthInfo)) (NewRepository True)
        (testForm noOverrides) (testStore (OtherAuth ''kerberos''))
       = (Ok (),
          (testForm noOverrides)
            \<lparr>rcf_ClusterCandidate := Some (testCandidate (OtherAuth ''kerberos'')),
             rcf_RawConf := Some (testConfig emptyAuthInfo), rcf_IntegrationID := 0\<rparr>,
          testStore (OtherAuth ''kerberos''))"
proof -
  have r: "ReadClusterCandidate (NewRepository True) (rcf_ClusterCandidateID (testForm noOverrides))
       (testStore (OtherAuth ''kerberos'')) = Inr (testCandidate (OtherAuth ''kerberos''))"
    by (simp add: example_defs)
  have m: "cc_AuthMechanism (testCandidate (OtherAuth ''kerberos'')) = OtherAuth ''kerberos''"
    by (simp add: testCandidate_def)
  have p: "(\<lambda>kubeconfig. Inr (testConfig emptyAuthInfo)) (cc_Kubeconfig (testCandidate (OtherAuth ''kerberos''))) = Inr (testConfig emptyAuthInfo)"
    by simp
  have c: "cfg_Contexts (testConfig emptyAuthInfo) (cfg_CurrentContext (testConfig emptyAuthInfo))
       = Some testContext"
    by (simp add: testConfig_def)
  from unknown_mechanism_resolves_nothing [OF r m p c] r m c show ?thesis by simp
qed

subsection \<open>Kubeconfigs with missing sections\<close>

text \<open>
  Claim C2: for every kubeconfig whose sections are absent or partial, resolution
  (\<^verbatim>\<open>ResolveIntegration\<close> and \<^verbatim>\<open>buildCluster\<close>) ends with a result or an error
  and never dereferences a nil pointer. The code does not keep this. On the
  \<^verbatim>\<open>basic\<close> kubeconfig of the parser's tests, whose current context
  \<^verbatim>\<open>default\<close> is not among its contexts, the lookup
  \<^verbatim>\<open>rawConf.Contexts[rawConf.CurrentContext]\<close> yields nil and the next line reads
  a field through it: both functions panic. The same happens in the resolver when the
  context exists and the user it names does not.
\<close>

theorem missing_context_panics:
  "fst (ResolveIntegration (\<lambda>kubeconfig. Inr basicConfig) (NewRepository True)
          (testForm noOverrides) (testStore X509)) = Panic
   \<and> buildCluster netURL
         ((testForm noOverrides)
            \<lparr>rcf_ClusterCandidate := Some (testCandidate X509),
             rcf_RawConf := Some basicConfig\<rparr>) = Panic
   \<and> fst (ResolveIntegration
            (\<lambda>kubeconfig. Inr ((testConfig emptyAuthInfo)\<lparr>cfg_AuthInfos := Map.empty\<rparr>))
            (NewRepository True) (testForm noOverrides) (testStore X509)) = Panic"
proof (intro conjI)
  show "fst (ResolveIntegration (\<lambda>kubeconfig. Inr basicConfig) (NewRepository True)
          (testForm noOverrides) (testStore X509)) = Panic"
    by (simp add: ResolveIntegration_def basicConfig_def example_defs)
  show "buildCluster netURL
         ((testForm noOverrides)
            \<lparr>rcf_ClusterCandidate := Some (testCandidate X509),
             rcf_RawConf := Some basicConfig\<rparr>) = Panic"
    by (simp add: buildCluster_def basicConfig_def example_defs)
  show "fst (ResolveIntegration
            (\<lambda>kubeconfig. Inr ((testConfig emptyAuthInfo)\<lparr>cfg_AuthInfos := Map.empty\<rparr>))
            (NewRepository True) (testForm noOverrides) (testStore X509)) = Panic"
    by (simp add: ResolveIntegration_def resolveX509_def example_defs)
qed

text \<open>
  More generally, every kubeconfig that lacks its current context makes both functions
  panic, whatever the mechanism.
\<close>

lemma ResolveIntegration_panics_without_context:
  assumes "ReadClusterCandidate repo (rcf_ClusterCandidateID rcf) s = Inr cc"
    and "GetRawConfigFromBytes (cc_Kubeconfig cc) = Inr rawConf"
    and "cfg_Contexts rawConf (cfg_CurrentContext rawConf) = None"
  shows "ResolveIntegration GetRawConfigFromBytes repo rcf s
         = (Panic, rcf\<lparr>rcf_ClusterCandidate := Some cc, rcf_RawConf := Some rawConf\<rparr>, s)"
  using assms by (simp add: ResolveIntegration_def)

lemma buildCluster_panics_without_context:
  assumes "rcf_RawConf rcf = Some rawConf"
    and "cfg_Contexts rawConf (cfg_CurrentContext rawConf) = None"
  shows "buildCluster url rcf = Panic"
  using assms by (simp add: buildCluster_def)

subsection \<open>Raw fields and overrides\<close>

text \<open>
  Four runs against the rule ``the override value is persisted, and a failure names
  the missing field'': a certificate override \<^verbatim>\<open>QUJD\<close> is stored as the bytes
  \<^verbatim>\<open>ABC\<close> it decodes to; an override that is not base64 fails the resolution
  although the raw certificate and key are there; and the error of the CloudIAM-B
  resolver is the same whether the secret access key or the cluster id is missing.
\<close>

theorem override_precedence_fails:
  "map ki_ClientCertificateData
     (st_KubeIntegrations (snd (resolveX509 (NewRepository True)
        (testForm (noOverrides\<lparr>cra_ClientCertData := ''QUJD''\<rparr>))
        (Some (emptyAuthInfo\<lparr>ai_ClientCertificateData := ''raw-cert'',
                              ai_ClientKeyData := ''raw-key''\<rparr>))
        emptyStore)))
     = [''ABC'']
   \<and> resolveX509 (NewRepository True)
        (testForm (noOverrides\<lparr>cra_ClientCertData := ''not base64''\<rparr>))
        (Some (emptyAuthInfo\<lparr>ai_ClientCertificateData := ''raw-cert'',
                              ai_ClientKeyData := ''raw-key''\<rparr>))
        emptyStore
     = (Failed CorruptInputError, emptyStore)
   \<and> resolveAWS (NewRepository True)
        (testForm (noOverrides\<lparr>cra_AWSClusterID := ''cluster'',
                                cra_AWSAccessKeyID := ''key-id''\<rparr>))
        (Some emptyAuthInfo) emptyStore
     = (Failed (ErrorString ''could not resolve aws integration''), emptyStore)
   \<and> resolveAWS (NewRepository True)
        (testForm (noOverrides\<lparr>cra_AWSAccessKeyID := ''key-id'',
                                cra_AWSSecretAccessKey := ''secret''\<rparr>))
        (Some emptyAuthInfo) emptyStore
     = (Failed (ErrorString ''could not resolve aws integration''), emptyStore)"
proof (intro conjI)
  have d: "DecodeString ''QUJD'' = Inr ''ABC''"
    by (simp add: DecodeString_def decodeMap_def encodeStd_def assemble_def char_of_def)
  show "map ki_ClientCertificateData
     (st_KubeIntegrations (snd (resolveX509 (NewRepository True)
        (testForm (noOverrides\<lparr>cra_ClientCertData := ''QUJD''\<rparr>))
        (Some (emptyAuthInfo\<lparr>ai_ClientCertificateData := ''raw-cert'',
                              ai_ClientKeyData := ''raw-key''\<rparr>))
        emptyStore)))
     = [''ABC'']"
    by (simp add: resolveX509_def writeKubeIntegration_def newKubeIntegration_def d example_defs Let_def)
  have e: "DecodeString ''not base64'' = Inl CorruptInputError"
    by (simp add: DecodeString_def decodeMap_def encodeStd_def)
  show "resolveX509 (NewRepository True)
        (testForm (noOverrides\<lparr>cra_ClientCertData := ''not base64''\<rparr>))
        (Some (emptyAuthInfo\<lparr>ai_ClientCertificateData := ''raw-cert'',
                              ai_ClientKeyData := ''raw-key''\<rparr>))
        emptyStore
     = (Failed CorruptInputError, emptyStore)"
    by (simp add: resolveX509_def newKubeIntegration_def e example_defs)
  show "resolveAWS (NewRepository True)
        (testForm (noOverrides\<lparr>cra_AWSClusterID := ''cluster'',
                                cra_AWSAccessKeyID := ''key-id''\<rparr>))
        (Some emptyAuthInfo) emptyStore
     = (Failed (ErrorString ''could not resolve aws integration''), emptyStore)"
    by (simp add: resolveAWS_def newAWSIntegration_def example_defs)
  show "resolveAWS (NewRepository True)
        (testForm (noOverrides\<lparr>cra_AWSAccessKeyID := ''key-id'',
                                cra_AWSSecretAccessKey := ''secret''\<rparr>))
        (Some emptyAuthInfo) emptyStore
     = (Failed (ErrorString ''could not resolve aws integration''), emptyStore)"
    by (simp add: resolveAWS_def newAWSIntegration_def example_defs)
qed

text \<open>
  Claim C3: for every mechanism and required field, the override wins when both
  sources supply the field, the raw value is used when only the raw source does, and
  resolution fails with an error naming the field when neither does. As the code has
  it: the bearer token follows the rule as stated; a certificate or key override is
  base64-decoded and the decoded bytes replace the raw value; the user name and
  password come from the raw source only, the CloudIAM fields from the overrides only;
  and when a required field is empty after merging, the resolver returns the fixed
  error of its mechanism, which does not tell the fields apart, and writes nothing.
\<close>

theorem override_precedence:
  assumes "rcf_Resolver rcf = Some resolver"
  shows
    "(cra_TokenData resolver \<noteq> [] \<longrightarrow>
        resolveToken repo rcf (Some ai) s
        = writeKubeIntegration repo
            ((newKubeIntegration KubeBearer (rcf_UserID rcf) (rcf_ProjectID rcf))
               \<lparr>ki_Token := cra_TokenData resolver\<rparr>) s)
   \<and> (cra_TokenData resolver = [] \<and> ai_Token ai \<noteq> [] \<longrightarrow>
        resolveToken repo rcf (Some ai) s
        = writeKubeIntegration repo
            ((newKubeIntegration KubeBearer (rcf_UserID rcf) (rcf_ProjectID rcf))
               \<lparr>ki_Token := ai_Token ai\<rparr>) s)
   \<and> (cra_TokenData resolver = [] \<and> ai_Token ai = [] \<longrightarrow>
        resolveToken repo rcf (Some ai) s
        = (Failed (ErrorString ''could not resolve kube integration (token)''), s))
   \<and> (\<forall>cert key.
        (if cra_ClientCertData resolver \<noteq> [] then DecodeString (cra_ClientCertData resolver)
         else Inr (ai_ClientCertificateData ai)) = Inr cert
        \<and> (if cra_ClientKeyData resolver \<noteq> [] then DecodeString (cra_ClientKeyData resolver)
           else Inr (ai_ClientKeyData ai)) = Inr key
        \<longrightarrow> resolveX509 repo rcf (Some ai) s
            = (if cert = [] \<or> key = []
               then (Failed (ErrorString ''could not resolve kube integration (x509)''), s)
               else writeKubeIntegration repo
                      ((newKubeIntegration KubeX509 (rcf_UserID rcf) (rcf_ProjectID rcf))
                         \<lparr>ki_ClientCertificateData := cert, ki_ClientKeyData := key\<rparr>) s))
   \<and> resolveBasic repo rcf (Some ai) s
       = (if ai_Username ai = [] \<or> ai_Password ai = []
          then (Failed (ErrorString ''could not resolve kube integration (basic)''), s)
          else writeKubeIntegration repo
                 ((newKubeIntegration KubeBasic (rcf_UserID rcf) (rcf_ProjectID rcf))
                    \<lparr>ki_Username := ai_Username ai, ki_Password := ai_Password ai\<rparr>) s)
   \<and> resolveGCP repo rcf authInfo s
       = (if cra_GCPKeyData resolver = []
          then (Failed (ErrorString ''could not resolve gcp integration''), s)
          else writeGCPIntegration repo
                 ((newGCPIntegration (rcf_UserID rcf) (rcf_ProjectID rcf))
                    \<lparr>gcp_GCPKeyData := cra_GCPKeyData resolver\<rparr>) s)
   \<and> resolveAWS repo rcf authInfo s
       = (if cra_AWSClusterID resolver = [] \<or> cra_AWSAccessKeyID resolver = []
             \<or> cra_AWSSecretAccessKey resolver = []
          then (Failed (ErrorString ''could not resolve aws integration''), s)
          else writeAWSIntegration repo
                 ((newAWSIntegration (rcf_UserID rcf) (rcf_ProjectID rcf))
                    \<lparr>aws_AWSClusterID := cra_AWSClusterID resolver,
                     aws_AWSAccessKeyID := cra_AWSAccessKeyID resolver,
                     aws_AWSSecretAccessKey := cra_AWSSecretAccessKey resolver\<rparr>) s)"
proof (intro conjI)
  note tok = resolveToken_eq [OF assms, of repo ai s]
  show "cra_TokenData resolver \<noteq> [] \<longrightarrow>
        resolveToken repo rcf (Some ai) s
        = writeKubeIntegration repo
            ((newKubeIntegration KubeBearer (rcf_UserID rcf) (rcf_ProjectID rcf))
               \<lparr>ki_Token := cra_TokenData resolver\<rparr>) s"
    by (simp add: tok)
  show "cra_TokenData resolver = [] \<and> ai_Token ai \<noteq> [] \<longrightarrow>
        resolveToken repo rcf (Some ai) s
        = writeKubeIntegration repo
            ((newKubeIntegration KubeBearer (rcf_UserID rcf) (rcf_ProjectID rcf))
               \<lparr>ki_Token := ai_Token ai\<rparr>) s"
    by (simp add: tok)
  show "cra_TokenData resolver = [] \<and> ai_Token ai = [] \<longrightarrow>
        resolveToken repo rcf (Some ai) s
        = (Failed (ErrorString ''could not resolve kube integration (token)''), s)"
    by (simp add: tok)
  show "\<forall>cert key.
        (if cra_ClientCertData resolver \<noteq> [] then DecodeString (cra_ClientCertData resolver)
         else Inr (ai_ClientCertificateData ai)) = Inr cert
        \<and> (if cra_ClientKeyData resolver \<noteq> [] then DecodeString (cra_ClientKeyData resolver)
           else Inr (ai_ClientKeyData ai)) = Inr key
        \<longrightarrow> resolveX509 repo rcf (Some ai) s
            = (if cert = [] \<or> key = []
               then (Failed (ErrorString ''could not resolve kube integration (x509)''), s)
               else writeKubeIntegration repo
                      ((newKubeIntegration KubeX509 (rcf_UserID rcf) (rcf_ProjectID rcf))
                         \<lparr>ki_ClientCertificateData := cert, ki_ClientKeyData := key\<rparr>) s)"
    by (intro allI impI, elim conjE) (simp only: resolveX509_eq [OF assms] sum.case)
  show "resolveBasic repo rcf (Some ai) s
       = (if ai_Username ai = [] \<or> ai_Password ai = []
          then (Failed (ErrorString ''could not resolve kube integration (basic)''), s)
          else writeKubeIntegration repo
                 ((newKubeIntegration KubeBasic (rcf_UserID rcf) (rcf_ProjectID rcf))
                    \<lparr>ki_Username := ai_Username ai, ki_Password := ai_Password ai\<rparr>) s)"
    by (rule resolveBasic_eq)
  show "resolveGCP repo rcf authInfo s
       = (if cra_GCPKeyData resolver = []
          then (Failed (ErrorString ''could not resolve gcp integration''), s)
          else writeGCPIntegration repo
                 ((newGCPIntegration (rcf_UserID rcf) (rcf_ProjectID rcf))
                    \<lparr>gcp_GCPKeyData := cra_GCPKeyData resolver\<rparr>) s)"
    by (rule resolveGCP_eq [OF assms])
  show "resolveAWS repo rcf authInfo s
       = (if cra_AWSClusterID resolver = [] \<or> cra_AWSAccessKeyID resolver = []
             \<or> cra_AWSSecretAccessKey resolver = []
          then (Failed (ErrorString ''could not resolve aws integration''), s)
          else writeAWSIntegration repo
                 ((newAWSIntegration (rcf_UserID rcf) (rcf_ProjectID rcf))
                    \<lparr>aws_AWSClusterID := cra_AWSClusterID resolver,
                     aws_AWSAccessKeyID := cra_AWSAccessKeyID resolver,
                     aws_AWSSecretAccessKey := cra_AWSSecretAccessKey resolver\<rparr>) s)"
    by (rule resolveAWS_eq [OF assms])
qed

theorem override_precedence_witness:
  "resolveToken (NewRepository True) (testForm (noOverrides\<lparr>cra_TokenData := ''abc123''\<rparr>))
     (Some (emptyAuthInfo\<lparr>ai_Token := ''raw-token''\<rparr>)) emptyStore
   = (Ok 1,
      emptyStore\<lparr>st_KubeIntegrations :=
        [(newKubeIntegration KubeBearer 1 1)\<lparr>ki_ID := 1, ki_Token := ''abc123''\<rparr>]\<rparr>)
   \<and> resolveToken (NewRepository True) (testForm noOverrides)
       (Some (emptyAuthInfo\<lparr>ai_Token := ''raw-token''\<rparr>)) emptyStore
     = (Ok 1,
        emptyStore\<lparr>st_KubeIntegrations :=
          [(newKubeIntegration KubeBearer 1 1)\<lparr>ki_ID := 1, ki_Token := ''raw-token''\<rparr>]\<rparr>)
   \<and> resolveToken (NewRepository True) (testForm noOverrides) (Some emptyAuthInfo) emptyStore
     = (Failed (ErrorString ''could not resolve kube integration (token)''), emptyStore)"
proof (intro conjI)
  have r1: "rcf_Resolver (testForm (noOverrides\<lparr>cra_TokenData := ''abc123''\<rparr>))
              = Some (noOverrides\<lparr>cra_TokenData := ''abc123''\<rparr>)"
    and r2: "rcf_Resolver (testForm noOverrides) = Some noOverrides"
    by (simp_all add: testForm_def)
  from override_precedence [OF r1, of "NewRepository True"
      "emptyAuthInfo\<lparr>ai_Token := ''raw-token''\<rparr>" emptyStore]
  show "resolveToken (NewRepository True) (testForm (noOverrides\<lparr>cra_TokenData := ''abc123''\<rparr>))
     (Some (emptyAuthInfo\<lparr>ai_Token := ''raw-token''\<rparr>)) emptyStore
   = (Ok 1,
      emptyStore\<lparr>st_KubeIntegrations :=
        [(newKubeIntegration KubeBearer 1 1)\<lparr>ki_ID := 1, ki_Token := ''abc123''\<rparr>]\<rparr>)"
    by (simp add: writeKubeIntegration_def newKubeIntegration_def example_defs Let_def)
  from override_precedence [OF r2, of "NewRepository True"
      "emptyAuthInfo\<lparr>ai_Token := ''raw-token''\<rparr>" emptyStore]
  show "resolveToken (NewRepository True) (testForm noOverrides)
       (Some (emptyAuthInfo\<lparr>ai_Token := ''raw-token''\<rparr>)) emptyStore
     = (Ok 1,
        emptyStore\<lparr>st_KubeIntegrations :=
          [(newKubeIntegration KubeBearer 1 1)\<lparr>ki_ID := 1, ki_Token := ''raw-token''\<rparr>]\<rparr>)"
    by (simp add: writeKubeIntegration_def newKubeIntegration_def example_defs Let_def)
  from override_precedence [OF r2, of "NewRepository True" emptyAuthInfo emptyStore]
  show "resolveToken (NewRepository True) (testForm noOverrides) (Some emptyAuthInfo) emptyStore
     = (Failed (ErrorString ''could not resolve kube integration (token)''), emptyStore)"
    by (simp add: example_defs)
qed

subsection \<open>The certificate authority data of \<^verbatim>\<open>ToCluster\<close>\<close>

text \<open>
  Claim C4: the sniffing of \<^verbatim>\<open>ToCluster\<close> returns the decoded bytes for a string
  that matches the base64 pattern and the bytes of the string itself, unchanged, for a
  non-empty string that does not. The second half fails in the code: the branch for a
  string that does not match is missing, so the certificate stays the empty slice it was
  initialised to. A PEM header does not match the pattern, and the cluster is built
  without error and without certificate authority data.
\<close>

theorem ToCluster_drops_unmatched_certificate:
  "\<not> reMatchString ''-----BEGIN CERTIFICATE-----''
   \<and> ToCluster
         \<lparr>ccf_Name = ''c'', ccf_ProjectID = 1, ccf_Server = ''https://localhost'',
          ccf_GCPIntegrationID = 1, ccf_AWSIntegrationID = 0,
          ccf_CertificateAuthorityData = ''-----BEGIN CERTIFICATE-----''\<rparr>
       = Inr (zeroCluster
               \<lparr>cl_AuthMechanism := GCP, cl_Name := ''c'',
                cl_Server := ''https://localhost'', cl_GCPIntegrationID := 1,
                cl_CertificateAuthorityData := []\<rparr>)"
  by (simp add: ToCluster_def reClass_def zeroCluster_def)

text \<open>
  The first half holds: a string that matches the pattern always decodes, and its
  decoded bytes become the certificate authority data.
\<close>

lemma ToCluster_decodes_matched_certificate:
  assumes "ccf_GCPIntegrationID ccf \<noteq> 0"
    and "ccf_CertificateAuthorityData ccf \<noteq> []"
    and "reMatchString (ccf_CertificateAuthorityData ccf)"
  shows "\<exists>decoded cluster.
           DecodeString (ccf_CertificateAuthorityData ccf) = Inr decoded
           \<and> ToCluster ccf = Inr cluster
           \<and> cl_CertificateAuthorityData cluster = decoded"
proof -
  from assms(3) obtain decoded
    where "DecodeString (ccf_CertificateAuthorityData ccf) = Inr decoded"
    using reMatchString_DecodeString by blast
  with assms show ?thesis by (simp add: ToCluster_def)
qed

subsection \<open>Certificate and key overrides\<close>

text \<open>
  An override that does not match the base64 pattern, a PEM header, is not passed
  through: the decoder rejects it and the resolution fails, with the raw certificate
  and key at hand.
\<close>

theorem x509_override_not_sniffed:
  "\<not> reMatchString ''-----BEGIN CERTIFICATE-----''
   \<and> resolveX509 (NewRepository True)
        (testForm (noOverrides\<lparr>cra_ClientCertData := ''-----BEGIN CERTIFICATE-----''\<rparr>))
        (Some (emptyAuthInfo\<lparr>ai_ClientCertificateData := ''raw-cert'',
                              ai_ClientKeyData := ''raw-key''\<rparr>))
        emptyStore
     = (Failed CorruptInputError, emptyStore)"
proof
  show "\<not> reMatchString ''-----BEGIN CERTIFICATE-----''"
    by (simp add: reClass_def)
  have e: "DecodeString ''-----BEGIN CERTIFICATE-----'' = Inl CorruptInputError"
    by (simp add: DecodeString_def decodeMap_def encodeStd_def)
  show "resolveX509 (NewRepository True)
        (testForm (noOverrides\<lparr>cra_ClientCertData := ''-----BEGIN CERTIFICATE-----''\<rparr>))
        (Some (emptyAuthInfo\<lparr>ai_ClientCertificateData := ''raw-cert'',
                              ai_ClientKeyData := ''raw-key''\<rparr>))
        emptyStore
     = (Failed CorruptInputError, emptyStore)"
    by (simp add: resolveX509_def newKubeIntegration_def e example_defs)
qed

text \<open>
  Claim C5: for the Certificate mechanism a non-empty override of the client
  certificate or key is decoded by the sniffer before it replaces the raw value, so
  that an override that does not match the pattern is passed through unchanged. The
  code does not sniff here: it decodes every non-empty override, each on its own. An
  override the decoder rejects fails the resolution with the decoder's error, and
  nothing is written. Otherwise the certificate is the decoded override when there is
  one and the raw certificate when there is none, and the key likewise; with one of
  the two empty the resolver fails, and else it writes the record of exactly these
  two. An override that matches the pattern always decodes.
\<close>

theorem x509_overrides_decoded:
  assumes "rcf_Resolver rcf = Some resolver"
  shows
    "(\<forall>err. cra_ClientCertData resolver \<noteq> []
            \<and> DecodeString (cra_ClientCertData resolver) = Inl err
        \<longrightarrow> resolveX509 repo rcf (Some ai) s = (Failed err, s))
   \<and> (\<forall>err cert.
          (if cra_ClientCertData resolver \<noteq> [] then DecodeString (cra_ClientCertData resolver)
           else Inr (ai_ClientCertificateData ai)) = Inr cert
          \<and> cra_ClientKeyData resolver \<noteq> []
          \<and> DecodeString (cra_ClientKeyData resolver) = Inl err
        \<longrightarrow> resolveX509 repo rcf (Some ai) s = (Failed err, s))
   \<and> (\<forall>cert key.
          (if cra_ClientCertData resolver \<noteq> [] then DecodeString (cra_ClientCertData resolver)
           else Inr (ai_ClientCertificateData ai)) = Inr cert
          \<and> (if cra_ClientKeyData resolver \<noteq> [] then DecodeString (cra_ClientKeyData resolver)
             else Inr (ai_ClientKeyData ai)) = Inr key
        \<longrightarrow> resolveX509 repo rcf (Some ai) s
            = (if cert = [] \<or> key = []
               then (Failed (ErrorString ''could not resolve kube integration (x509)''), s)
               else writeKubeIntegration repo
                      ((newKubeIntegration KubeX509 (rcf_UserID rcf) (rcf_ProjectID rcf))
                         \<lparr>ki_ClientCertificateData := cert, ki_ClientKeyData := key\<rparr>) s))
   \<and> (reMatchString (cra_ClientCertData resolver)
        \<longrightarrow> (\<exists>cert. DecodeString (cra_ClientCertData resolver) = Inr cert))
   \<and> (reMatchString (cra_ClientKeyData resolver)
        \<longrightarrow> (\<exists>key. DecodeString (cra_ClientKeyData resolver) = Inr key))"
proof (intro conjI allI impI)
  fix err
  assume "cra_ClientCertData resolver \<noteq> []
            \<and> DecodeString (cra_ClientCertData resolver) = Inl err"
  then show "resolveX509 repo rcf (Some ai) s = (Failed err, s)"
    by (simp add: resolveX509_eq [OF assms])
next
  fix err cert
  assume "(if cra_ClientCertData resolver \<noteq> [] then DecodeString (cra_ClientCertData resolver)
           else Inr (ai_ClientCertificateData ai)) = Inr cert
          \<and> cra_ClientKeyData resolver \<noteq> []
          \<and> DecodeString (cra_ClientKeyData resolver) = Inl err"
  then show "resolveX509 repo rcf (Some ai) s = (Failed err, s)"
    by (simp add: resolveX509_eq [OF assms])
next
  fix cert key
  assume "(if cra_ClientCertData resolver \<noteq> [] then DecodeString (cra_ClientCertData resolver)
           else Inr (ai_ClientCertificateData ai)) = Inr cert
          \<and> (if cra_ClientKeyData resolver \<noteq> [] then DecodeString (cra_ClientKeyData resolver)
             else Inr (ai_ClientKeyData ai)) = Inr key"
  then show "resolveX509 repo rcf (Some ai) s
            = (if cert = [] \<or> key = []
               then (Failed (ErrorString ''could not resolve kube integration (x509)''), s)
               else writeKubeIntegration repo
                      ((newKubeIntegration KubeX509 (rcf_UserID rcf) (rcf_ProjectID rcf))
                         \<lparr>ki_ClientCertificateData := cert, ki_ClientKeyData := key\<rparr>) s)"
    by (elim conjE) (simp only: resolveX509_eq [OF assms] sum.case)
next
  assume "reMatchString (cra_ClientCertData resolver)"
  then show "\<exists>cert. DecodeString (cra_ClientCertData resolver) = Inr cert"
    by (rule reMatchString_DecodeString)
next
  assume "reMatchString (cra_ClientKeyData resolver)"
  then show "\<exists>key. DecodeString (cra_ClientKeyData resolver) = Inr key"
    by (rule reMatchString_DecodeString)
qed

theorem x509_overrides_decoded_witness:
  "resolveX509 (NewRepository True)
     (testForm (noOverrides\<lparr>cra_ClientCertData := ''QUJD'', cra_ClientKeyData := ''QUI=''\<rparr>))
     (Some (emptyAuthInfo\<lparr>ai_ClientCertificateData := ''raw-cert'',
                           ai_ClientKeyData := ''raw-key''\<rparr>)) emptyStore
   = (Ok 1,
      emptyStore\<lparr>st_KubeIntegrations :=
        [(newKubeIntegration KubeX509 1 1)
           \<lparr>ki_ID := 1, ki_ClientCertificateData := ''ABC'', ki_ClientKeyData := ''AB''\<rparr>]\<rparr>)
   \<and> resolveX509 (NewRepository True)
       (testForm (noOverrides\<lparr>cra_ClientCertData := ''QUJD''\<rparr>))
       (Some (emptyAuthInfo\<lparr>ai_ClientCertificateData := ''raw-cert'',
                             ai_ClientKeyData := ''raw-key''\<rparr>)) emptyStore
     = (Ok 1,
        emptyStore\<lparr>st_KubeIntegrations :=
          [(newKubeIntegration KubeX509 1 1)
             \<lparr>ki_ID := 1, ki_ClientCertificateData := ''ABC'',
              ki_ClientKeyData := ''raw-key''\<rparr>]\<rparr>)
   \<and> resolveX509 (NewRepository True)
       (testForm (noOverrides\<lparr>cra_ClientCertData := ''@@@@''\<rparr>))
       (Some (emptyAuthInfo\<lparr>ai_ClientCertificateData := ''raw-cert'',
                             ai_ClientKeyData := ''raw-key''\<rparr>)) emptyStore
     = (Failed CorruptInputError, emptyStore)"
proof (intro conjI)
  have r1: "rcf_Resolver
      (testForm (noOverrides\<lparr>cra_ClientCertData := ''QUJD'', cra_ClientKeyData := ''QUI=''\<rparr>))
      = Some (noOverrides\<lparr>cra_ClientCertData := ''QUJD'', cra_ClientKeyData := ''QUI=''\<rparr>)"
    and r2: "rcf_Resolver (testForm (noOverrides\<lparr>cra_ClientCertData := ''@@@@''\<rparr>))
      = Some (noOverrides\<lparr>cra_ClientCertData := ''@@@@''\<rparr>)"
    and r3: "rcf_Resolver (testForm (noOverrides\<lparr>cra_ClientCertData := ''QUJD''\<rparr>))
      = Some (noOverrides\<lparr>cra_ClientCertData := ''QUJD''\<rparr>)"
    by (simp_all add: testForm_def)
  from x509_overrides_decoded [OF r1, of "NewRepository True"
      "emptyAuthInfo\<lparr>ai_ClientCertificateData := ''raw-cert'', ai_ClientKeyData := ''raw-key''\<rparr>"
      emptyStore]
  show "resolveX509 (NewRepository True)
     (testForm (noOverrides\<lparr>cra_ClientCertData := ''QUJD'', cra_ClientKeyData := ''QUI=''\<rparr>))
     (Some (emptyAuthInfo\<lparr>ai_ClientCertificateData := ''raw-cert'',
                           ai_ClientKeyData := ''raw-key''\<rparr>)) emptyStore
   = (Ok 1,
      emptyStore\<lparr>st_KubeIntegrations :=
        [(newKubeIntegration KubeX509 1 1)
           \<lparr>ki_ID := 1, ki_ClientCertificateData := ''ABC'', ki_ClientKeyData := ''AB''\<rparr>]\<rparr>)"
    by (simp add: decode_examples writeKubeIntegration_def newKubeIntegration_def
          example_defs Let_def)
  from x509_overrides_decoded [OF r3, of "NewRepository True"
      "emptyAuthInfo\<lparr>ai_ClientCertificateData := ''raw-cert'', ai_ClientKeyData := ''raw-key''\<rparr>"
      emptyStore]
  show "resolveX509 (NewRepository True)
       (testForm (noOverrides\<lparr>cra_ClientCertData := ''QUJD''\<rparr>))
       (Some (emptyAuthInfo\<lparr>ai_ClientCertificateData := ''raw-cert'',
                             ai_ClientKeyData := ''raw-key''\<rparr>)) emptyStore
     = (Ok 1,
        emptyStore\<lparr>st_KubeIntegrations :=
          [(newKubeIntegration KubeX509 1 1)
             \<lparr>ki_ID := 1, ki_ClientCertificateData := ''ABC'',
              ki_ClientKeyData := ''raw-key''\<rparr>]\<rparr>)"
    by (simp add: decode_examples writeKubeIntegration_def newKubeIntegration_def
          example_defs Let_def)
  from x509_overrides_decoded [OF r2, of "NewRepository True"
      "emptyAuthInfo\<lparr>ai_ClientCertificateData := ''raw-cert'', ai_ClientKeyData := ''raw-key''\<rparr>"
      emptyStore]
  show "resolveX509 (NewRepository True)
       (testForm (noOverrides\<lparr>cra_ClientCertData := ''@@@@''\<rparr>))
       (Some (emptyAuthInfo\<lparr>ai_ClientCertificateData := ''raw-cert'',
                             ai_ClientKeyData := ''raw-key''\<rparr>)) emptyStore
     = (Failed CorruptInputError, emptyStore)"
    by (simp add: decode_examples example_defs)
qed

subsection \<open>Required fields at the moment of the write\<close>



subsection \<open>The credential slots of the built cluster\<close>

text \<open>
  Resolution and build for a tag that is none of the seven both succeed, and the
  cluster that is built has no credential slot set.
\<close>

theorem unknown_mechanism_no_slot:
  "fst (ResolveIntegration (\<lambda>kubeconfig. Inr (testConfig emptyAuthInfo)) (NewRepository True)
          (testForm noOverrides) (testStore (OtherAuth ''kerberos''))) = Ok ()
   \<and> buildCluster netURL
        (fst (snd (ResolveIntegration (\<lambda>kubeconfig. Inr (testConfig emptyAuthInfo))
                     (NewRepository True) (testForm noOverrides)
                     (testStore (OtherAuth ''kerberos'')))))
     = Ok \<lparr>cl_AuthMechanism = OtherAuth ''kerberos'', cl_ProjectID = 1,
           cl_Name = ''cluster-test'', cl_Server = ''https://old.example.com:6443'',
           cl_ClusterLocationOfOrigin = [], cl_TLSServerName = [],
           cl_InsecureSkipTLSVerify = False, cl_UserLocationOfOrigin = [],
           cl_UserImpersonate = [], cl_UserImpersonateGroups = [],
           cl_CertificateAuthorityData = [], cl_KubeIntegrationID = 0,
           cl_OIDCIntegrationID = 0, cl_GCPIntegrationID = 0, cl_AWSIntegrationID = 0\<rparr>"
proof -
  have r: "ResolveIntegration (\<lambda>kubeconfig. Inr (testConfig emptyAuthInfo)) (NewRepository True)
      (testForm noOverrides) (testStore (OtherAuth ''kerberos''))
   = (Ok (),
      (testForm noOverrides)
        \<lparr>rcf_ClusterCandidate := Some (testCandidate (OtherAuth ''kerberos'')),
         rcf_RawConf := Some (testConfig emptyAuthInfo)\<rparr>,
      testStore (OtherAuth ''kerberos''))"
    by (simp add: ResolveIntegration_def example_defs)
  show ?thesis
    unfolding r by (simp add: buildCluster_def zeroCluster_def example_defs)
qed

text \<open>
  Claim C7: after every successful build exactly one of the four credential slots is
  non-zero, the one of the dispatched mechanism. As the code has it, this needs the
  mechanism to be one of the seven and the identifier on the form to be non-zero: then
  the slot of the mechanism holds the identifier (\<^verbatim>\<open>KubeIntegrationID\<close> for X509,
  Bearer, Basic and Local) and the other three are zero, and the cluster carries the
  candidate's mechanism.
\<close>

theorem one_credential_slot:
  assumes "buildCluster url rcf = Ok cluster"
    and "rcf_ClusterCandidate rcf = Some cc"
    and "rcf_IntegrationID rcf \<noteq> 0"
    and "\<forall>tag. cc_AuthMechanism cc \<noteq> OtherAuth tag"
  shows "cl_AuthMechanism cluster = cc_AuthMechanism cc
   \<and> (cc_AuthMechanism cc \<in> {X509, Bearer, Basic, Local} \<longrightarrow>
        cl_KubeIntegrationID cluster = rcf_IntegrationID rcf
        \<and> cl_OIDCIntegrationID cluster = 0 \<and> cl_GCPIntegrationID cluster = 0
        \<and> cl_AWSIntegrationID cluster = 0)
   \<and> (cc_AuthMechanism cc = OIDC \<longrightarrow>
        cl_OIDCIntegrationID cluster = rcf_IntegrationID rcf
        \<and> cl_KubeIntegrationID cluster = 0 \<and> cl_GCPIntegrationID cluster = 0
        \<and> cl_AWSIntegrationID cluster = 0)
   \<and> (cc_AuthMechanism cc = GCP \<longrightarrow>
        cl_GCPIntegrationID cluster = rcf_IntegrationID rcf
        \<and> cl_KubeIntegrationID cluster = 0 \<and> cl_OIDCIntegrationID cluster = 0
        \<and> cl_AWSIntegrationID cluster = 0)
   \<and> (cc_AuthMechanism cc = AWS \<longrightarrow>
        cl_AWSIntegrationID cluster = rcf_IntegrationID rcf
        \<and> cl_KubeIntegrationID cluster = 0 \<and> cl_OIDCIntegrationID cluster = 0
        \<and> cl_GCPIntegrationID cluster = 0)
   \<and> length (filter (\<lambda>slot. slot \<noteq> 0)
        [cl_KubeIntegrationID cluster, cl_OIDCIntegrationID cluster,
         cl_GCPIntegrationID cluster, cl_AWSIntegrationID cluster]) = 1"
proof -
  note slots = buildCluster_slots [OF assms(1) assms(2)]
  from assms(4) consider "cc_AuthMechanism cc = X509" | "cc_AuthMechanism cc = Bearer"
    | "cc_AuthMechanism cc = Basic" | "cc_AuthMechanism cc = Local"
    | "cc_AuthMechanism cc = OIDC" | "cc_AuthMechanism cc = GCP" | "cc_AuthMechanism cc = AWS"
    by (cases "cc_AuthMechanism cc") simp_all
  then show ?thesis
    using slots assms(3) by cases simp_all
qed

theorem one_credential_slot_witness:
  "buildCluster netURL
     ((testForm noOverrides)
        \<lparr>rcf_ClusterCandidate := Some (testCandidate Bearer),
         rcf_RawConf := Some (testConfig emptyAuthInfo), rcf_IntegrationID := 7\<rparr>)
   = Ok (zeroCluster
          \<lparr>cl_AuthMechanism := Bearer, cl_ProjectID := 1, cl_Name := ''cluster-test'',
           cl_Server := ''https://old.example.com:6443'', cl_KubeIntegrationID := 7\<rparr>)
   \<and> cl_KubeIntegrationID (zeroCluster
          \<lparr>cl_AuthMechanism := Bearer, cl_ProjectID := 1, cl_Name := ''cluster-test'',
           cl_Server := ''https://old.example.com:6443'', cl_KubeIntegrationID := 7\<rparr>) = 7
   \<and> length (filter (\<lambda>slot. slot \<noteq> 0)
        [cl_KubeIntegrationID (zeroCluster
          \<lparr>cl_AuthMechanism := Bearer, cl_ProjectID := 1, cl_Name := ''cluster-test'',
           cl_Server := ''https://old.example.com:6443'', cl_KubeIntegrationID := 7\<rparr>),
         cl_OIDCIntegrationID (zeroCluster
          \<lparr>cl_AuthMechanism := Bearer, cl_ProjectID := 1, cl_Name := ''cluster-test'',
           cl_Server := ''https://old.example.com:6443'', cl_KubeIntegrationID := 7\<rparr>),
         cl_GCPIntegrationID (zeroCluster
          \<lparr>cl_AuthMechanism := Bearer, cl_ProjectID := 1, cl_Name := ''cluster-test'',
           cl_Server := ''https://old.example.com:6443'', cl_KubeIntegrationID := 7\<rparr>),
         cl_AWSIntegrationID (zeroCluster
          \<lparr>cl_AuthMechanism := Bearer, cl_ProjectID := 1, cl_Name := ''cluster-test'',
           cl_Server := ''https://old.example.com:6443'', cl_KubeIntegrationID := 7\<rparr>)]) = 1"
proof -
  let ?form = "(testForm noOverrides)
        \<lparr>rcf_ClusterCandidate := Some (testCandidate Bearer),
         rcf_RawConf := Some (testConfig emptyAuthInfo), rcf_IntegrationID := 7\<rparr>"
  let ?cluster = "zeroCluster
          \<lparr>cl_AuthMechanism := Bearer, cl_ProjectID := 1, cl_Name := ''cluster-test'',
           cl_Server := ''https://old.example.com:6443'', cl_KubeIntegrationID := 7\<rparr>"
  have ok: "buildCluster netURL ?form = Ok ?cluster"
    by (simp add: buildCluster_def zeroCluster_def example_defs)
  have cc: "rcf_ClusterCandidate ?form = Some (testCandidate Bearer)" by simp
  have i: "rcf_IntegrationID ?form \<noteq> 0" by simp
  have m: "\<forall>tag. cc_AuthMechanism (testCandidate Bearer) \<noteq> OtherAuth tag"
    by (simp add: testCandidate_def)
  from one_credential_slot [OF ok cc i m] ok show ?thesis
    by (simp add: testCandidate_def)
qed

subsection \<open>The hostname override\<close>




subsection \<open>The OIDC certificate authority override\<close>

text \<open>
  Claim C9: for the OIDC mechanism a non-empty issuer-CA override becomes the
  certificate authority data of the record as it is, byte for byte, whatever the
  provider configuration holds and whether or not the override looks like base64;
  nothing is decoded.
\<close>

theorem oidc_override_verbatim:
  assumes "rcf_Resolver rcf = Some resolver"
    and "cra_OIDCIssuerCAData resolver \<noteq> []"
    and "ai_AuthProvider ai = Some authProvider"
  shows "resolveOIDC repo rcf (Some ai) s =
     writeOIDCIntegration repo
       \<lparr>oidc_ID = 0, oidc_Client = OIDCKube, oidc_UserID = rcf_UserID rcf,
        oidc_ProjectID = rcf_ProjectID rcf,
        oidc_IssuerURL =
          (case apc_Config authProvider ''idp-issuer-url'' of Some v \<Rightarrow> v | None \<Rightarrow> []),
        oidc_ClientID =
          (case apc_Config authProvider ''client-id'' of Some v \<Rightarrow> v | None \<Rightarrow> []),
        oidc_ClientSecret =
          (case apc_Config authProvider ''client-secret'' of Some v \<Rightarrow> v | None \<Rightarrow> []),
        oidc_CertificateAuthorityData = cra_OIDCIssuerCAData resolver,
        oidc_IDToken =
          (case apc_Config authProvider ''id-token'' of Some v \<Rightarrow> v | None \<Rightarrow> []),
        oidc_RefreshToken =
          (case apc_Config authProvider ''refresh-token'' of Some v \<Rightarrow> v | None \<Rightarrow> [])\<rparr> s"
  using assms(2) by (simp add: resolveOIDC_eq [OF assms(1) assms(3)])

theorem oidc_override_verbatim_witness:
  "resolveOIDC (NewRepository True)
     (testForm (noOverrides\<lparr>cra_OIDCIssuerCAData := ''QUJD''\<rparr>))
     (Some (emptyAuthInfo\<lparr>ai_AuthProvider :=
        Some \<lparr>apc_Name = ''oidc'',
              apc_Config = [''idp-certificate-authority-data'' \<mapsto> ''cmF3'',
                            ''client-id'' \<mapsto> ''porter'']\<rparr>\<rparr>)) emptyStore
   = (Ok 1,
      emptyStore\<lparr>st_OIDCIntegrations :=
        [(newOIDCIntegration 1 1)
           \<lparr>oidc_ID := 1, oidc_ClientID := ''porter'',
            oidc_CertificateAuthorityData := ''QUJD''\<rparr>]\<rparr>)
   \<and> DecodeString ''QUJD'' = Inr ''ABC''"
proof
  have r: "rcf_Resolver (testForm (noOverrides\<lparr>cra_OIDCIssuerCAData := ''QUJD''\<rparr>))
      = Some (noOverrides\<lparr>cra_OIDCIssuerCAData := ''QUJD''\<rparr>)"
    by (simp add: testForm_def)
  have n: "cra_OIDCIssuerCAData (noOverrides\<lparr>cra_OIDCIssuerCAData := ''QUJD''\<rparr>) \<noteq> []"
    by simp
  have a: "ai_AuthProvider (emptyAuthInfo\<lparr>ai_AuthProvider :=
        Some \<lparr>apc_Name = ''oidc'',
              apc_Config = [''idp-certificate-authority-data'' \<mapsto> ''cmF3'',
                            ''client-id'' \<mapsto> ''porter'']\<rparr>\<rparr>)
      = Some \<lparr>apc_Name = ''oidc'',
              apc_Config = [''idp-certificate-authority-data'' \<mapsto> ''cmF3'',
                            ''client-id'' \<mapsto> ''porter'']\<rparr>"
    by simp
  from oidc_override_verbatim [OF r n a, of "NewRepository True" emptyStore]
  show "resolveOIDC (NewRepository True)
     (testForm (noOverrides\<lparr>cra_OIDCIssuerCAData := ''QUJD''\<rparr>))
     (Some (emptyAuthInfo\<lparr>ai_AuthProvider :=
        Some \<lparr>apc_Name = ''oidc'',
              apc_Config = [''idp-certificate-authority-data'' \<mapsto> ''cmF3'',
                            ''client-id'' \<mapsto> ''porter'']\<rparr>\<rparr>)) emptyStore
   = (Ok 1,
      emptyStore\<lparr>st_OIDCIntegrations :=
        [(newOIDCIntegration 1 1)
           \<lparr>oidc_ID := 1, oidc_ClientID := ''porter'',
            oidc_CertificateAuthorityData := ''QUJD''\<rparr>]\<rparr>)"
    by (simp add: writeOIDCIntegration_def newOIDCIntegration_def example_defs Let_def)
  show "DecodeString ''QUJD'' = Inr ''ABC''"
    by (rule decode_examples)
qed

subsection \<open>Basic authentication takes nothing from the overrides\<close>

text \<open>
  Claim C10: for the BasicAuth mechanism the outcome and the record handed to the
  repository depend on the raw user name and password only: whatever the overrides of
  the form are (also when the pointer to them is nil), \<^verbatim>\<open>resolveBasic\<close> does the
  same on the same user entry, repository and store.
\<close>

theorem resolveBasic_ignores_overrides:
  "resolveBasic repo (rcf\<lparr>rcf_Resolver := resolver1\<rparr>) authInfo s
     = resolveBasic repo (rcf\<lparr>rcf_Resolver := resolver2\<rparr>) authInfo s"
  by (cases authInfo) (simp_all add: resolveBasic_def)

end
